theory Spec2Isabelle
  imports Main "HOL-Library.AList"
begin

section \<open>Values\<close>

text \<open>
  The store holds schema-less documents. A value is one of the things a JSON-like
  JavaScript value can be: \<open>undefined\<close>, \<open>null\<close>, a boolean, a number, a string, an
  array or a plain object. A number is an integer (standing for the numbers that are
  stored exactly and printed in decimal), \<open>NaN\<close>, \<open>Infinity\<close> or \<open>-Infinity\<close>;
  fractions are outside the value model. A plain object is the list of its own
  enumerable properties in enumeration order, an array the list of its elements
  (no holes). Objects and arrays are plain: their prototypes are \<open>Object.prototype\<close>
  and \<open>Array.prototype\<close>, and no value is a function. \<open>get\<close> reads own
  properties; what a read of a name that a plain object inherits (\<open>constructor\<close>,
  \<open>toString\<close>, ...) returns is outside the value model.
\<close>

datatype jsval =
    JUndefined
  | JNull
  | JBool bool
  | JNum int
  | JNaN
  | JInfinity bool
  | JStr string
  | JArr "jsval list"
  | JObj "(string \<times> jsval) list"

type_synonym document = "(string \<times> jsval) list"

datatype js_error =
    TypeError
  | SyntaxError
  | IOError
  | LoadError
  | UserExists string

text \<open>Truthiness, as \<open>!v\<close>, \<open>v || d\<close> and \<open>if (v)\<close> test it.\<close>

fun truthy :: "jsval \<Rightarrow> bool" where
  "truthy JUndefined = False"
| "truthy JNull = False"
| "truthy (JBool b) = b"
| "truthy (JNum n) = (n \<noteq> 0)"
| "truthy JNaN = False"
| "truthy (JInfinity positive) = True"
| "truthy (JStr s) = (s \<noteq> [])"
| "truthy (JArr xs) = True"
| "truthy (JObj ps) = True"

text \<open>\<open>typeof v === 'object' && v !== null\<close>\<close>

fun is_object :: "jsval \<Rightarrow> bool" where
  "is_object (JArr xs) = True"
| "is_object (JObj ps) = True"
| "is_object v = False"

text \<open>\<open>doc[key]\<close> on a document: the own property, \<open>undefined\<close> when there is none.\<close>

definition get :: "document \<Rightarrow> string \<Rightarrow> jsval" where
  "get doc key = (case map_of doc key of None \<Rightarrow> JUndefined | Some v \<Rightarrow> v)"

text \<open>
  \<open>v.name\<close> on any value, for the fixed names the store reads (\<open>$set\<close>, \<open>upsert\<close>,
  \<open>roles\<close>, \<open>resource\<close>, \<open>permissions\<close>; none of them is \<open>length\<close> or an index):
  reading a property of \<open>undefined\<close> or \<open>null\<close> raises a TypeError, a primitive or an
  array has no such property.
\<close>

fun get_property :: "jsval \<Rightarrow> string \<Rightarrow> js_error + jsval" where
  "get_property JUndefined name = Inl TypeError"
| "get_property JNull name = Inl TypeError"
| "get_property (JObj ps) name = Inr (get ps name)"
| "get_property v name = Inr JUndefined"

text \<open>Decimal digits of an array index, as \<open>String(i)\<close> gives them.\<close>

fun show_nat :: "nat \<Rightarrow> string" where
  "show_nat n =
     (if n < 10 then [char_of (48 + n)]
      else show_nat (n div 10) @ [char_of (48 + n mod 10)])"

definition show_int :: "int \<Rightarrow> string" where
  "show_int i = (if i < 0 then CHR ''-'' # show_nat (nat (- i)) else show_nat (nat i))"

definition indexed :: "'a list \<Rightarrow> (string \<times> 'a) list" where
  "indexed xs = zip (map show_nat [0 ..< length xs]) xs"

text \<open>
  \<open>Object.entries(v)\<close> and \<open>Object.keys(v)\<close>: a TypeError on \<open>undefined\<close> and
  \<open>null\<close>; the index properties of an array or a string; nothing for a number or a
  boolean.
\<close>

fun Object_entries :: "jsval \<Rightarrow> js_error + (string \<times> jsval) list" where
  "Object_entries JUndefined = Inl TypeError"
| "Object_entries JNull = Inl TypeError"
| "Object_entries (JObj ps) = Inr ps"
| "Object_entries (JArr xs) = Inr (indexed xs)"
| "Object_entries (JStr s) = Inr (indexed (map (\<lambda>c. JStr [c]) s))"
| "Object_entries v = Inr []"

text \<open>
  The own enumerable properties that \<open>{ ...v }\<close> and \<open>Object.assign(target, v)\<close>
  copy: as \<open>Object.entries\<close>, but \<open>undefined\<close> and \<open>null\<close> contribute nothing.
\<close>

definition spread :: "jsval \<Rightarrow> (string \<times> jsval) list" where
  "spread v = (case Object_entries v of Inl e \<Rightarrow> [] | Inr ps \<Rightarrow> ps)"

text \<open>
  \<open>Object.assign(target, source)\<close> assigns each property of the source in order; an
  existing property keeps its place, a new one is appended. The assignment
  \<open>target[k] = v\<close> of the name \<open>__proto__\<close> writes a property only when the target
  has an own property of that name; otherwise it reaches the setter that
  \<open>Object.prototype\<close> has for that name and adds no property. (The prototype that the
  setter installs is outside the value model.)
\<close>

definition assignable :: "document \<Rightarrow> (string \<times> jsval) list \<Rightarrow> (string \<times> jsval) list" where
  "assignable target source =
     filter (\<lambda>p. fst p \<noteq> ''__proto__'' \<or> ''__proto__'' \<in> set (map fst target)) source"

definition assign :: "document \<Rightarrow> (string \<times> jsval) list \<Rightarrow> document" where
  "assign target source =
     fold (\<lambda>(k, v) t. AList.update k v t) (assignable target source) target"

section \<open>Query matcher\<close>

text \<open>
  Two operations of the language are parameters of the model. \<open>less_than J x y\<close> is the
  result of the abstract relational comparison \<open>x < y\<close> (true, false, or undefined when
  a NaN is involved) for operands whose conversion to a primitive does not raise.
  \<open>same_object J x y\<close> says whether two non-primitive values are the same object.
  Every theorem below holds for all such parameters.
\<close>

record js_semantics =
  less_than :: "jsval \<Rightarrow> jsval \<Rightarrow> bool option"
  same_object :: "jsval \<Rightarrow> jsval \<Rightarrow> bool"

text \<open>
  A relational operator first converts each operand to a primitive. For a plain object
  that is \<open>valueOf\<close> (inherited: returns the object itself) and then \<open>toString\<close>; an
  own property \<open>toString\<close> is not callable in the value model and shadows the inherited
  one, so the conversion raises a TypeError. An array is joined, which converts each
  element other than \<open>undefined\<close> and \<open>null\<close> to a string the same way.
\<close>

fun ToPrimitive_raises :: "jsval \<Rightarrow> bool" where
  "ToPrimitive_raises (JObj ps) = (''toString'' \<in> set (map fst ps))"
| "ToPrimitive_raises (JArr xs) = list_ex ToPrimitive_raises xs"
| "ToPrimitive_raises v = False"

definition IsLessThan :: "js_semantics \<Rightarrow> jsval \<Rightarrow> jsval \<Rightarrow> js_error + bool option" where
  "IsLessThan J x y =
     (if ToPrimitive_raises x \<or> ToPrimitive_raises y then Inl TypeError
      else Inr (less_than J x y))"

text \<open>\<open>a > b\<close>, \<open>a < b\<close>, \<open>a >= b\<close>, \<open>a <= b\<close>\<close>

definition js_gt :: "js_semantics \<Rightarrow> jsval \<Rightarrow> jsval \<Rightarrow> js_error + bool" where
  "js_gt J a b = (case IsLessThan J b a of Inl e \<Rightarrow> Inl e | Inr r \<Rightarrow> Inr (r = Some True))"

definition js_lt :: "js_semantics \<Rightarrow> jsval \<Rightarrow> jsval \<Rightarrow> js_error + bool" where
  "js_lt J a b = (case IsLessThan J a b of Inl e \<Rightarrow> Inl e | Inr r \<Rightarrow> Inr (r = Some True))"

definition js_ge :: "js_semantics \<Rightarrow> jsval \<Rightarrow> jsval \<Rightarrow> js_error + bool" where
  "js_ge J a b = (case IsLessThan J a b of Inl e \<Rightarrow> Inl e | Inr r \<Rightarrow> Inr (r = Some False))"

definition js_le :: "js_semantics \<Rightarrow> jsval \<Rightarrow> jsval \<Rightarrow> js_error + bool" where
  "js_le J a b = (case IsLessThan J b a of Inl e \<Rightarrow> Inl e | Inr r \<Rightarrow> Inr (r = Some False))"

text \<open>
  \<open>a === b\<close>: primitives by value, \<open>NaN\<close> equal to nothing, objects and arrays
  by identity.
\<close>

definition strict_equals :: "js_semantics \<Rightarrow> jsval \<Rightarrow> jsval \<Rightarrow> bool" where
  "strict_equals J a b =
     (if is_object a \<or> is_object b then is_object a \<and> is_object b \<and> same_object J a b
      else a = b \<and> a \<noteq> JNaN)"

text \<open>\<open>xs.includes(v)\<close> on an array: as \<open>===\<close>, but \<open>NaN\<close> is found.\<close>

definition array_includes :: "js_semantics \<Rightarrow> jsval list \<Rightarrow> jsval \<Rightarrow> bool" where
  "array_includes J xs v =
     list_ex (\<lambda>x. if is_object x \<or> is_object v
                   then is_object x \<and> is_object v \<and> same_object J x v
                   else x = v) xs"

text \<open>
  One case of the \<open>switch (operator)\<close> of \<open>_matchQuery\<close>, on the field value
  \<open>doc[key]\<close>: \<open>Inr True\<close> when the case reaches its \<open>break\<close>, \<open>Inr False\<close> when it
  returns false, \<open>Inl\<close> when the comparison raises.
\<close>

definition match_operator :: "js_semantics \<Rightarrow> jsval \<Rightarrow> string \<Rightarrow> jsval \<Rightarrow> js_error + bool" where
  "match_operator J field operator compValue =
     (if operator = ''$gt'' then js_gt J field compValue
      else if operator = ''$lt'' then js_lt J field compValue
      else if operator = ''$gte'' then js_ge J field compValue
      else if operator = ''$lte'' then js_le J field compValue
      else if operator = ''$eq'' then Inr (strict_equals J field compValue)
      else if operator = ''$ne'' then Inr (\<not> strict_equals J field compValue)
      else if operator = ''$in'' then
        Inr (case compValue of JArr xs \<Rightarrow> array_includes J xs field | _ \<Rightarrow> False)
      else if operator = ''$nin'' then
        Inr (case compValue of JArr xs \<Rightarrow> \<not> array_includes J xs field | _ \<Rightarrow> False)
      else Inr False)"

text \<open>The inner loop over \<open>Object.entries(value)\<close>.\<close>

fun match_operators :: "js_semantics \<Rightarrow> jsval \<Rightarrow> (string \<times> jsval) list \<Rightarrow> js_error + bool" where
  "match_operators J field [] = Inr True"
| "match_operators J field ((operator, compValue) # rest) =
     (case match_operator J field operator compValue of
        Inl e \<Rightarrow> Inl e
      | Inr False \<Rightarrow> Inr False
      | Inr True \<Rightarrow> match_operators J field rest)"

text \<open>
  The outer loop over \<open>Object.entries(query)\<close>. A value that is not an object is a
  primitive, which \<open>doc[key] !== value\<close> compares by value.
\<close>

fun match_entries :: "js_semantics \<Rightarrow> document \<Rightarrow> (string \<times> jsval) list \<Rightarrow> js_error + bool" where
  "match_entries J doc [] = Inr True"
| "match_entries J doc ((key, v) # rest) =
     (if is_object v then
        (case match_operators J (get doc key) (spread v) of
           Inl e \<Rightarrow> Inl e
         | Inr False \<Rightarrow> Inr False
         | Inr True \<Rightarrow> match_entries J doc rest)
      else if \<not> (get doc key = v \<and> v \<noteq> JNaN) then Inr False
      else match_entries J doc rest)"

definition matchQuery :: "js_semantics \<Rightarrow> document \<Rightarrow> jsval \<Rightarrow> js_error + bool" where
  "matchQuery J doc query =
     (case Object_entries query of
        Inl e \<Rightarrow> Inl e
      | Inr entries \<Rightarrow> match_entries J doc entries)"

section \<open>Permission enforcer\<close>

text \<open>
  \<open>xs.some(p)\<close>: stops at the first element the callback accepts; a callback that
  raises ends the scan.
\<close>

fun array_some :: "('a \<Rightarrow> js_error + bool) \<Rightarrow> 'a list \<Rightarrow> js_error + bool" where
  "array_some p [] = Inr False"
| "array_some p (x # xs) =
     (case p x of
        Inl e \<Rightarrow> Inl e
      | Inr True \<Rightarrow> Inr True
      | Inr False \<Rightarrow> array_some p xs)"

text \<open>\<open>s.includes(t)\<close> on strings: \<open>t\<close> occurs in \<open>s\<close>.\<close>

fun string_includes :: "string \<Rightarrow> string \<Rightarrow> bool" where
  "string_includes [] t = (t = [])"
| "string_includes (c # s) t = (take (length t) (c # s) = t \<or> string_includes s t)"

text \<open>
  \<open>role.permissions.includes(permission)\<close> with a string \<open>permission\<close>: membership
  in an array, a substring test on a string, a TypeError on anything else (a property
  read of \<open>undefined\<close> or \<open>null\<close>, or a call of something that is not a function).
\<close>

definition permissions_include :: "jsval \<Rightarrow> string \<Rightarrow> js_error + bool" where
  "permissions_include role permission =
     (case get_property role ''permissions'' of
        Inl e \<Rightarrow> Inl e
      | Inr (JArr xs) \<Rightarrow> Inr (JStr permission \<in> set xs)
      | Inr (JStr s) \<Rightarrow> Inr (string_includes s permission)
      | Inr v \<Rightarrow> Inl TypeError)"

text \<open>\<open>role.resource === '*' && role.permissions.includes('admin')\<close>\<close>

definition is_admin_role :: "jsval \<Rightarrow> js_error + bool" where
  "is_admin_role role =
     (case get_property role ''resource'' of
        Inl e \<Rightarrow> Inl e
      | Inr r \<Rightarrow> (if r = JStr ''*'' then permissions_include role ''admin'' else Inr False))"

text \<open>\<open>resource.split('.')[0]\<close>\<close>

definition database_part :: "string \<Rightarrow> string" where
  "database_part resource = takeWhile (\<lambda>c. c \<noteq> CHR ''.'') resource"

definition role_grants :: "string \<Rightarrow> string \<Rightarrow> jsval \<Rightarrow> js_error + bool" where
  "role_grants resource permission role =
     (case get_property role ''resource'' of
        Inl e \<Rightarrow> Inl e
      | Inr r \<Rightarrow>
          (if r = JStr resource \<or> r = JStr (database_part resource) \<or> r = JStr ''*''
           then permissions_include role permission
           else Inr False))"

definition hasPermission :: "jsval \<Rightarrow> string \<Rightarrow> string \<Rightarrow> js_error + bool" where
  "hasPermission user resource permission =
     (if \<not> truthy user then Inr False
      else
        (case get_property user ''roles'' of
           Inl e \<Rightarrow> Inl e
         | Inr roles \<Rightarrow>
             (if \<not> truthy roles then Inr False
              else
                (case roles of
                   JArr rs \<Rightarrow>
                     (case array_some is_admin_role rs of
                        Inl e \<Rightarrow> Inl e
                      | Inr True \<Rightarrow> Inr True
                      | Inr False \<Rightarrow> array_some (role_grants resource permission) rs)
                 | _ \<Rightarrow> Inl TypeError))))"

definition checkPermission :: "jsval \<Rightarrow> string \<Rightarrow> string \<Rightarrow> js_error + bool" where
  "checkPermission user resource permission =
     (case hasPermission user resource permission of
        Inl e \<Rightarrow> Inl e
      | Inr granted \<Rightarrow> (if \<not> granted then Inr False else Inr True))"

text \<open>
  The permission test of the collection methods,
  \<open>!user || self.checkPermission(user, name, p)\<close>.
\<close>

definition absent_or_permitted :: "jsval \<Rightarrow> string \<Rightarrow> string \<Rightarrow> js_error + bool" where
  "absent_or_permitted user resource permission =
     (if \<not> truthy user then Inr True else checkPermission user resource permission)"

section \<open>Document and collection store\<close>

text \<open>
  The store object. \<open>_collections\<close> maps \<open>database.collection\<close> to the array of its
  documents, \<open>_indexes\<close> maps it to the indexes by field, each a table from the
  field's value (as a property key) to positions in the array. \<open>_changedCollections\<close>
  is a \<open>Set\<close>: its elements in insertion order, without repetition. The clock
  (\<open>Date.now()\<close>) and the identifier that \<open>_generateUniqueId()\<close> returns in a call
  are inputs of each operation. An operation returns the store it leaves behind and
  either its result or the error it raises.
\<close>

record store =
  storageMode :: string
  databases :: "string list"
  collections :: "string \<rightharpoonup> document list"
  indexes :: "string \<rightharpoonup> (string \<rightharpoonup> (string \<rightharpoonup> nat list))"
  changedCollections :: "string list"
  lastActivity :: int
  idleTimeout :: int
  idleTimer :: bool
  isInitialized :: bool

definition set_add :: "'a \<Rightarrow> 'a list \<Rightarrow> 'a list" where
  "set_add x xs = (if x \<in> set xs then xs else xs @ [x])"

text \<open>The constructor, from \<open>options.storageMode\<close> and \<open>options.idleTimeout\<close>.\<close>

definition JSM :: "string \<Rightarrow> int \<Rightarrow> int \<Rightarrow> store" where
  "JSM mode timeout now =
     \<lparr> storageMode = (if mode = [] then ''memory'' else mode),
       databases = [],
       collections = Map.empty,
       indexes = Map.empty,
       changedCollections = [],
       lastActivity = now,
       idleTimeout = (if timeout = 0 then 1 * 10 * 1000 else timeout),
       idleTimer = False,
       isInitialized = False \<rparr>"

definition fullName :: "string \<Rightarrow> string \<Rightarrow> string" where
  "fullName dbName collectionName = dbName @ ''.'' @ collectionName"

text \<open>\<open>db(dbName).collection(collectionName)\<close>: the collection springs into existence.\<close>

definition db_collection :: "store \<Rightarrow> string \<Rightarrow> string \<Rightarrow> store" where
  "db_collection st dbName collectionName =
     st\<lparr> databases := set_add dbName (databases st),
         collections :=
           (case collections st (fullName dbName collectionName) of
              None \<Rightarrow> (collections st)(fullName dbName collectionName \<mapsto> [])
            | Some c \<Rightarrow> collections st) \<rparr>"

text \<open>\<open>updateActivity()\<close> under \<open>if (self.storageMode === 'disk')\<close>\<close>

definition touch :: "int \<Rightarrow> store \<Rightarrow> store" where
  "touch now st = (if storageMode st = ''disk'' then st\<lparr> lastActivity := now \<rparr> else st)"

definition mark_changed :: "string \<Rightarrow> store \<Rightarrow> store" where
  "mark_changed name st = st\<lparr> changedCollections := set_add name (changedCollections st) \<rparr>"

definition put_collection :: "string \<Rightarrow> document list \<Rightarrow> store \<Rightarrow> store" where
  "put_collection name docs st = st\<lparr> collections := (collections st)(name \<mapsto> docs) \<rparr>"

text \<open>\<open>{ ...doc, _id: id }\<close>\<close>

definition with_id :: "(string \<times> jsval) list \<Rightarrow> string \<Rightarrow> document" where
  "with_id ps new_id = AList.update ''_id'' (JStr new_id) ps"

text \<open>
  \<open>_generateUniqueId()\<close>, from the clock in milliseconds and the twelve bytes that
  \<open>crypto.randomBytes(12)\<close> returns: the seconds in hexadecimal, padded to eight
  digits, followed by two hexadecimal digits for each byte.
\<close>

definition hex_digit :: "nat \<Rightarrow> char" where
  "hex_digit n = ''0123456789abcdef'' ! (n mod 16)"

fun to_hex :: "nat \<Rightarrow> string" where
  "to_hex n =
     (if n < 16 then [hex_digit n]
      else to_hex (n div 16) @ [hex_digit (n mod 16)])"

definition padStart :: "nat \<Rightarrow> char \<Rightarrow> string \<Rightarrow> string" where
  "padStart n c s = replicate (n - length s) c @ s"

definition generateUniqueId :: "nat \<Rightarrow> nat list \<Rightarrow> string" where
  "generateUniqueId now randomBytes =
     padStart 8 (CHR ''0'') (to_hex (now div 1000))
       @ concat (map (\<lambda>b. [hex_digit (b div 16), hex_digit b]) randomBytes)"

definition insertOne ::
  "store \<Rightarrow> string \<Rightarrow> string \<Rightarrow> int \<Rightarrow> string \<Rightarrow> jsval \<Rightarrow> jsval \<Rightarrow> store \<times> (js_error + jsval)" where
  "insertOne st dbName collectionName now new_id doc user =
     (case absent_or_permitted user (fullName dbName collectionName) ''write'' of
        Inl e \<Rightarrow> (st, Inl e)
      | Inr False \<Rightarrow> (st, Inr JNull)
      | Inr True \<Rightarrow>
          (case collections st (fullName dbName collectionName) of
             None \<Rightarrow> (st, Inl TypeError)
           | Some collection \<Rightarrow>
               (touch now
                  (mark_changed (fullName dbName collectionName)
                     (put_collection (fullName dbName collectionName)
                        (collection @ [with_id (spread doc) new_id]) st)),
                Inr (JObj (with_id (spread doc) new_id)))))"

text \<open>
  \<open>insertMany\<close>: \<open>docs.map(...)\<close> raises a TypeError unless \<open>docs\<close> is an array;
  \<open>new_ids i\<close> is the identifier generated for the document at position \<open>i\<close>.
\<close>

definition insertMany ::
  "store \<Rightarrow> string \<Rightarrow> string \<Rightarrow> int \<Rightarrow> (nat \<Rightarrow> string) \<Rightarrow> jsval \<Rightarrow> jsval
     \<Rightarrow> store \<times> (js_error + jsval)" where
  "insertMany st dbName collectionName now new_ids docs user =
     (case absent_or_permitted user (fullName dbName collectionName) ''write'' of
        Inl e \<Rightarrow> (st, Inl e)
      | Inr False \<Rightarrow> (st, Inr JNull)
      | Inr True \<Rightarrow>
          (case docs of
             JArr ds \<Rightarrow>
               (case collections st (fullName dbName collectionName) of
                  None \<Rightarrow> (st, Inl TypeError)
                | Some collection \<Rightarrow>
                    (touch now
                       (mark_changed (fullName dbName collectionName)
                          (put_collection (fullName dbName collectionName)
                             (collection @
                                map (\<lambda>(i, d). with_id (spread d) (new_ids i))
                                  (zip [0 ..< length ds] ds)) st)),
                     Inr (JArr (map (\<lambda>(i, d). JObj (with_id (spread d) (new_ids i)))
                                  (zip [0 ..< length ds] ds)))))
           | _ \<Rightarrow> (st, Inl TypeError)))"

text \<open>
  The match phase of \<open>updateOne\<close>: the index of the first document the filter
  matches, scanning from position \<open>i\<close>.
\<close>

fun first_match :: "js_semantics \<Rightarrow> jsval \<Rightarrow> document list \<Rightarrow> nat \<Rightarrow> js_error + nat option" where
  "first_match J filt [] i = Inr None"
| "first_match J filt (doc # rest) i =
     (case matchQuery J doc filt of
        Inl e \<Rightarrow> Inl e
      | Inr True \<Rightarrow> Inr (Some i)
      | Inr False \<Rightarrow> first_match J filt rest (Suc i))"

text \<open>\<open>options?.upsert === true\<close>, with the default \<open>options = {}\<close>\<close>

definition upsert_requested :: "jsval \<Rightarrow> bool" where
  "upsert_requested options =
     (case options of
        JObj ps \<Rightarrow> get ps ''upsert'' = JBool True
      | _ \<Rightarrow> False)"

text \<open>The update of the matched document: a patch under \<open>$set\<close>, a replacement otherwise.\<close>

definition apply_update :: "document \<Rightarrow> jsval \<Rightarrow> js_error + document" where
  "apply_update docToUpdate update =
     (case get_property update ''$set'' of
        Inl e \<Rightarrow> Inl e
      | Inr s \<Rightarrow>
          Inr (AList.update ''_id'' (get docToUpdate ''_id'')
                 (if truthy s
                  then assign docToUpdate (AList.delete ''_id'' (spread s))
                  else assign (filter (\<lambda>p. fst p = ''_id'') docToUpdate)
                         (AList.delete ''_id'' (spread update)))))"

text \<open>The document an upsert synthesizes.\<close>

definition upsert_document :: "jsval \<Rightarrow> jsval \<Rightarrow> string \<Rightarrow> js_error + document" where
  "upsert_document filt update new_id =
     (case get_property update ''$set'' of
        Inl e \<Rightarrow> Inl e
      | Inr s \<Rightarrow>
          Inr (with_id
                 (AList.delete ''_id''
                    (assign (spread filt) (if truthy s then spread s else spread update)))
                 new_id))"

definition update_result :: "int \<Rightarrow> int \<Rightarrow> jsval" where
  "update_result matched modified =
     JObj [(''matchedCount'', JNum matched), (''modifiedCount'', JNum modified),
           (''acknowledged'', JBool True)]"

definition permission_denied :: jsval where
  "permission_denied =
     JObj [(''matchedCount'', JNum 0), (''modifiedCount'', JNum 0),
           (''acknowledged'', JBool False), (''error'', JStr ''Permission denied'')]"

definition upsert_result :: "string \<Rightarrow> jsval" where
  "upsert_result new_id =
     JObj [(''matchedCount'', JNum 0), (''modifiedCount'', JNum 1),
           (''upsertedId'', JStr new_id), (''acknowledged'', JBool True),
           (''upserted'', JBool True)]"

definition updateOne ::
  "js_semantics \<Rightarrow> store \<Rightarrow> string \<Rightarrow> string \<Rightarrow> int \<Rightarrow> string \<Rightarrow> jsval \<Rightarrow> jsval \<Rightarrow> jsval
     \<Rightarrow> jsval \<Rightarrow> store \<times> (js_error + jsval)" where
  "updateOne J st dbName collectionName now new_id filt update options user =
     (if \<not> truthy user then (st, Inr permission_denied)
      else
        (case checkPermission user (fullName dbName collectionName) ''write'' of
           Inl e \<Rightarrow> (st, Inl e)
         | Inr False \<Rightarrow> (st, Inr permission_denied)
         | Inr True \<Rightarrow>
             (case collections st (fullName dbName collectionName) of
                None \<Rightarrow> (st, Inr (update_result 0 0))
              | Some collection \<Rightarrow>
                  (case first_match J filt collection 0 of
                     Inl e \<Rightarrow> (st, Inl e)
                   | Inr (Some matchedIndex) \<Rightarrow>
                       (case apply_update (collection ! matchedIndex) update of
                          Inl e \<Rightarrow> (st, Inl e)
                        | Inr updated \<Rightarrow>
                            (touch now
                               (mark_changed (fullName dbName collectionName)
                                  (put_collection (fullName dbName collectionName)
                                     (collection[matchedIndex := updated]) st)),
                             Inr (update_result 1 1)))
                   | Inr None \<Rightarrow>
                       (if upsert_requested options then
                          (case upsert_document filt update new_id of
                             Inl e \<Rightarrow> (st, Inl e)
                           | Inr newDoc \<Rightarrow>
                               (touch now
                                  (mark_changed (fullName dbName collectionName)
                                     (put_collection (fullName dbName collectionName)
                                        (collection @ [newDoc]) st)),
                                Inr (upsert_result new_id)))
                        else (st, Inr (update_result 0 0)))))))"

text \<open>
  The loop of \<open>deleteOne\<close>, \<open>splice\<close> with the index stepped back: the documents
  that stay, the number removed, and the error that ended the scan early, if any (the
  documents from the one that raised on are then left in place).
\<close>

fun delete_loop ::
  "js_semantics \<Rightarrow> jsval \<Rightarrow> document list \<Rightarrow> document list \<times> nat \<times> js_error option" where
  "delete_loop J filt [] = ([], 0, None)"
| "delete_loop J filt (doc # rest) =
     (case matchQuery J doc filt of
        Inl e \<Rightarrow> (doc # rest, 0, Some e)
      | Inr True \<Rightarrow>
          (case delete_loop J filt rest of (kept, n, err) \<Rightarrow> (kept, Suc n, err))
      | Inr False \<Rightarrow>
          (case delete_loop J filt rest of (kept, n, err) \<Rightarrow> (doc # kept, n, err)))"

definition deleteOne ::
  "js_semantics \<Rightarrow> store \<Rightarrow> string \<Rightarrow> string \<Rightarrow> int \<Rightarrow> jsval \<Rightarrow> jsval
     \<Rightarrow> store \<times> (js_error + jsval)" where
  "deleteOne J st dbName collectionName now filt user =
     (case absent_or_permitted user (fullName dbName collectionName) ''write'' of
        Inl e \<Rightarrow> (st, Inl e)
      | Inr False \<Rightarrow> (st, Inr (JNum 0))
      | Inr True \<Rightarrow>
          (case collections st (fullName dbName collectionName) of
             None \<Rightarrow> (st, Inl TypeError)
           | Some collection \<Rightarrow>
               (case delete_loop J filt collection of
                  (kept, deletedCount, err) \<Rightarrow>
                    (case err of
                       Some e \<Rightarrow>
                         ((if deletedCount = 0 then (\<lambda>s. s)
                           else mark_changed (fullName dbName collectionName))
                            (put_collection (fullName dbName collectionName) kept st),
                          Inl e)
                     | None \<Rightarrow>
                         (touch now
                            ((if deletedCount = 0 then (\<lambda>s. s)
                              else mark_changed (fullName dbName collectionName))
                               (put_collection (fullName dbName collectionName) kept st)),
                          Inr (JNum (int deletedCount)))))))"

section \<open>Index manager and find\<close>

text \<open>
  \<open>index[value]\<close> converts the value to a property key, a string. An array is
  joined with commas, \<open>undefined\<close> and \<open>null\<close> elements giving the empty string; a
  plain object gives \<open>[object Object]\<close>, and raises a TypeError when an own property
  shadows \<open>toString\<close>. An index is a plain object: under a key that it does not own
  but inherits from \<open>Object.prototype\<close> it holds a function (for \<open>__proto__\<close>, the
  prototype), which is truthy, has no \<open>push\<close> and cannot be iterated. The table of
  the indexes of a collection is read by the field names it owns (what it inherits
  under a field name is outside the model).
\<close>

definition object_prototype_names :: "string list" where
  "object_prototype_names =
     [''constructor'', ''__defineGetter__'', ''__defineSetter__'', ''hasOwnProperty'',
      ''__lookupGetter__'', ''__lookupSetter__'', ''isPrototypeOf'', ''propertyIsEnumerable'',
      ''toString'', ''valueOf'', ''__proto__'', ''toLocaleString'']"

fun join :: "(js_error + string) list \<Rightarrow> js_error + string" where
  "join [] = Inr []"
| "join [r] = r"
| "join (r # rs) =
     (case r of
        Inl e \<Rightarrow> Inl e
      | Inr s \<Rightarrow> (case join rs of Inl e \<Rightarrow> Inl e | Inr t \<Rightarrow> Inr (s @ '','' @ t)))"

fun ToString :: "jsval \<Rightarrow> js_error + string" where
  "ToString JUndefined = Inr ''undefined''"
| "ToString JNull = Inr ''null''"
| "ToString (JBool b) = Inr (if b then ''true'' else ''false'')"
| "ToString (JNum n) = Inr (show_int n)"
| "ToString JNaN = Inr ''NaN''"
| "ToString (JInfinity positive) = Inr (if positive then ''Infinity'' else ''-Infinity'')"
| "ToString (JStr s) = Inr s"
| "ToString (JObj ps) =
     (if ''toString'' \<in> set (map fst ps) then Inl TypeError else Inr ''[object Object]'')"
| "ToString (JArr xs) =
     join (map (\<lambda>x. if x = JUndefined \<or> x = JNull then Inr [] else ToString x) xs)"

text \<open>The loop of \<open>createIndex\<close>, from position \<open>i\<close>.\<close>

fun index_loop ::
  "string \<Rightarrow> document list \<Rightarrow> nat \<Rightarrow> (string \<rightharpoonup> nat list) \<Rightarrow> js_error + (string \<rightharpoonup> nat list)" where
  "index_loop field [] i index = Inr index"
| "index_loop field (doc # rest) i index =
     (case ToString (get doc field) of
        Inl e \<Rightarrow> Inl e
      | Inr k \<Rightarrow>
          (case index k of
             Some ps \<Rightarrow> index_loop field rest (Suc i) (index(k \<mapsto> ps @ [i]))
           | None \<Rightarrow>
               (if k \<in> set object_prototype_names then Inl TypeError
                else index_loop field rest (Suc i) (index(k \<mapsto> [i])))))"

text \<open>\<open>if (!this._indexes[name]) this._indexes[name] = {}\<close>\<close>

definition ensure_index_table :: "string \<Rightarrow> store \<Rightarrow> store" where
  "ensure_index_table name st =
     (case indexes st name of
        None \<Rightarrow> st\<lparr> indexes := (indexes st)(name \<mapsto> Map.empty) \<rparr>
      | Some t \<Rightarrow> st)"

definition put_index :: "string \<Rightarrow> string \<Rightarrow> (string \<rightharpoonup> nat list) \<Rightarrow> store \<Rightarrow> store" where
  "put_index name field index st =
     st\<lparr> indexes :=
          (indexes st)(name \<mapsto>
            (case indexes st name of None \<Rightarrow> [field \<mapsto> index] | Some t \<Rightarrow> t(field \<mapsto> index))) \<rparr>"

definition createIndex :: "store \<Rightarrow> string \<Rightarrow> string \<Rightarrow> string \<Rightarrow> store \<times> (js_error + unit)" where
  "createIndex st dbName collectionName field =
     (case collections st (fullName dbName collectionName) of
        None \<Rightarrow> (ensure_index_table (fullName dbName collectionName) st, Inr ())
      | Some collection \<Rightarrow>
          (case index_loop field collection 0 Map.empty of
             Inl e \<Rightarrow> (ensure_index_table (fullName dbName collectionName) st, Inl e)
           | Inr index \<Rightarrow>
               (put_index (fullName dbName collectionName) field index
                  (ensure_index_table (fullName dbName collectionName) st),
                Inr ())))"

text \<open>The collection method \<open>createIndex(field, user)\<close>.\<close>

definition collection_createIndex ::
  "store \<Rightarrow> string \<Rightarrow> string \<Rightarrow> string \<Rightarrow> jsval \<Rightarrow> store \<times> (js_error + bool)" where
  "collection_createIndex st dbName collectionName field user =
     (case absent_or_permitted user (fullName dbName collectionName) ''write'' of
        Inl e \<Rightarrow> (st, Inl e)
      | Inr False \<Rightarrow> (st, Inr False)
      | Inr True \<Rightarrow>
          (case createIndex st dbName collectionName field of
             (st', Inl e) \<Rightarrow> (st', Inl e)
           | (st', Inr u) \<Rightarrow> (st', Inr True)))"

text \<open>The full scan of \<open>find\<close>.\<close>

fun scan :: "js_semantics \<Rightarrow> jsval \<Rightarrow> document list \<Rightarrow> js_error + jsval list" where
  "scan J query [] = Inr []"
| "scan J query (doc # rest) =
     (case matchQuery J doc query of
        Inl e \<Rightarrow> Inl e
      | Inr m \<Rightarrow>
          (case scan J query rest of
             Inl e \<Rightarrow> Inl e
           | Inr results \<Rightarrow> Inr (if m then JObj doc # results else results)))"

text \<open>\<open>collection[i]\<close>: \<open>undefined\<close> past the end of the array.\<close>

definition element_at :: "document list \<Rightarrow> nat \<Rightarrow> jsval" where
  "element_at collection i = (if i < length collection then JObj (collection ! i) else JUndefined)"

text \<open>
  \<open>find(query, user)\<close>, with the default \<open>query = {}\<close>. It is not asynchronous and
  leaves the store as it is. With exactly one key in the query and an index on that
  key, the documents are read from the index.
\<close>

definition find :: "js_semantics \<Rightarrow> store \<Rightarrow> string \<Rightarrow> string \<Rightarrow> jsval \<Rightarrow> jsval \<Rightarrow> js_error + jsval list" where
  "find J st dbName collectionName query user =
     (case absent_or_permitted user (fullName dbName collectionName) ''read'' of
        Inl e \<Rightarrow> Inl e
      | Inr False \<Rightarrow> Inr []
      | Inr True \<Rightarrow>
          (case collections st (fullName dbName collectionName) of
             None \<Rightarrow> Inr []
           | Some collection \<Rightarrow>
               (case Object_entries (if query = JUndefined then JObj [] else query) of
                  Inl e \<Rightarrow> Inl e
                | Inr entries \<Rightarrow>
                    (case (if length entries = 1
                           then (case indexes st (fullName dbName collectionName) of
                                   None \<Rightarrow> None
                                 | Some t \<Rightarrow> t (fst (hd entries)))
                           else None) of
                       Some index \<Rightarrow>
                         (case ToString (snd (hd entries)) of
                            Inl e \<Rightarrow> Inl e
                          | Inr k \<Rightarrow>
                              (case index k of
                                 Some positions \<Rightarrow> Inr (map (element_at collection) positions)
                               | None \<Rightarrow>
                                   (if k \<in> set object_prototype_names then Inl TypeError
                                    else Inr [])))
                     | None \<Rightarrow>
                         scan J (if query = JUndefined then JObj [] else query) collection))))"

section \<open>Users\<close>

text \<open>\<open>!roles || roles.length === 0\<close>, with the default \<open>roles = []\<close>\<close>

definition no_roles :: "jsval \<Rightarrow> bool" where
  "no_roles roles =
     (case roles of
        JUndefined \<Rightarrow> True
      | JArr rs \<Rightarrow> rs = []
      | JObj ps \<Rightarrow> get ps ''length'' = JNum 0
      | v \<Rightarrow> \<not> truthy v)"

definition default_roles :: jsval where
  "default_roles =
     JArr [JObj [(''resource'', JStr ''*''), (''permissions'', JArr [JStr ''read''])]]"

text \<open>
  \<open>registerUser(username, password, roles)\<close>. \<open>hash\<close> is the digest that
  \<open>bcrypt.hash(password, 10)\<close> produces in this call.
\<close>

definition registerUser ::
  "js_semantics \<Rightarrow> (string \<Rightarrow> string) \<Rightarrow> store \<Rightarrow> int \<Rightarrow> string \<Rightarrow> string \<Rightarrow> string \<Rightarrow> jsval
     \<Rightarrow> store \<times> (js_error + jsval)" where
  "registerUser J hash st now new_id username password roles =
     (case find J (db_collection st ''auth'' ''users'') ''auth'' ''users''
             (JObj [(''username'', JStr username)]) JUndefined of
        Inl e \<Rightarrow> (db_collection st ''auth'' ''users'', Inl e)
      | Inr existingUsers \<Rightarrow>
          (if length existingUsers > 0
           then (db_collection st ''auth'' ''users'', Inl (UserExists username))
           else insertOne (db_collection (db_collection st ''auth'' ''users'') ''auth'' ''users'')
                  ''auth'' ''users'' now new_id
                  (JObj [(''username'', JStr username), (''password'', JStr (hash password)),
                         (''roles'', if no_roles roles then default_roles else roles)])
                  JUndefined))"

text \<open>\<open>_ensureAdminUser()\<close>\<close>

definition ensureAdminUser :: "(string \<Rightarrow> string) \<Rightarrow> store \<Rightarrow> string \<Rightarrow> store" where
  "ensureAdminUser hash st new_id =
     (case collections st ''auth.users'' of
        Some (u # us) \<Rightarrow> st
      | _ \<Rightarrow>
          mark_changed ''auth.users''
            (put_collection ''auth.users''
               [[(''_id'', JStr new_id), (''username'', JStr ''admin''),
                 (''password'', JStr (hash ''admin'')),
                 (''roles'', JArr [JObj [(''resource'', JStr ''*''),
                    (''permissions'', JArr [JStr ''read'', JStr ''write'', JStr ''admin''])]])]]
               st))"

section \<open>Persistence\<close>

text \<open>
  The storage directory. \<open>disk\<close> is what stands at \<open>storagePath\<close>: nothing, something
  that is not a directory, or a directory with its entries in the order \<open>readdir\<close>
  lists them. An entry of the storage directory is a database directory or something
  else; an entry of a database directory is a file or a subdirectory. A file holds
  the JSON text of an array of documents, or text that \<open>JSON.parse\<close> rejects (files
  with other JSON values are outside the model). Database and collection names are
  taken as single path components, so that \<open>path.join\<close> appends them, and names are
  compared exactly, as a case-sensitive file system does. Input and output fail only
  where the directory structure makes them fail: a directory cannot be made where a
  regular file stands, a file cannot be written or read where a directory stands.
\<close>

datatype content = JsonDocs "document list" | NotJson

datatype entry = File content | SubDir

datatype top_entry = TopFile | DbDir "(string \<times> entry) list"

datatype disk = Missing | NotADirectory | StorageDir "(string \<times> top_entry) list"

text \<open>
  What \<open>JSON.parse(JSON.stringify(v))\<close> gives for a value inside a document: a
  property whose value is \<open>undefined\<close> is left out, an \<open>undefined\<close> array element
  becomes \<open>null\<close>, and so do \<open>NaN\<close> and the infinities.
\<close>

fun json_value :: "jsval \<Rightarrow> jsval" where
  "json_value (JArr xs) = JArr (map (\<lambda>x. if x = JUndefined then JNull else json_value x) xs)"
| "json_value (JObj ps) =
     JObj (map (\<lambda>p. (fst p, json_value (snd p))) (filter (\<lambda>p. snd p \<noteq> JUndefined) ps))"
| "json_value JNaN = JNull"
| "json_value (JInfinity positive) = JNull"
| "json_value v = v"

definition json_document :: "document \<Rightarrow> document" where
  "json_document doc =
     map (\<lambda>p. (fst p, json_value (snd p))) (filter (\<lambda>p. snd p \<noteq> JUndefined) doc)"

text \<open>\<open>JSON.stringify(data)\<close>: \<open>undefined\<close> for a collection that does not exist.\<close>

definition JSON_stringify :: "document list option \<Rightarrow> content option" where
  "JSON_stringify data =
     (case data of None \<Rightarrow> None | Some docs \<Rightarrow> Some (JsonDocs (map json_document docs)))"

definition endsWith :: "string \<Rightarrow> string \<Rightarrow> bool" where
  "endsWith s suffix =
     (length suffix \<le> length s \<and> drop (length s - length suffix) s = suffix)"

text \<open>\<open>path.basename(file, ext)\<close> for a file name that ends with \<open>ext\<close>\<close>

definition basename :: "string \<Rightarrow> string \<Rightarrow> string" where
  "basename file ext = take (length file - length ext) file"

text \<open>\<open>s.split(c)\<close>\<close>

fun split_on :: "char \<Rightarrow> string \<Rightarrow> string list" where
  "split_on c [] = [[]]"
| "split_on c (x # xs) =
     (if x = c then [] # split_on c xs
      else (case split_on c xs of
              [] \<Rightarrow> [[x]]
            | w # ws \<Rightarrow> (x # w) # ws))"

text \<open>
  \<open>const [dbName, collectionName] = fullCollectionName.split('.')\<close>: the first two
  parts; a missing second part is \<open>undefined\<close>, which the file name template prints.
\<close>

definition split_name :: "string \<Rightarrow> string \<times> string" where
  "split_name fullCollectionName =
     (case split_on CHR ''.'' fullCollectionName of
        [] \<Rightarrow> ([], ''undefined'')
      | [d] \<Rightarrow> (d, ''undefined'')
      | d # c # rest \<Rightarrow> (d, c))"

text \<open>\<open>_ensureStorageDirectory()\<close>: an EEXIST error is swallowed.\<close>

definition ensureStorageDirectory :: "disk \<Rightarrow> disk" where
  "ensureStorageDirectory d = (case d of Missing \<Rightarrow> StorageDir [] | _ \<Rightarrow> d)"

text \<open>The inner loop of \<open>_loadPersistedData()\<close>, over the files of one database.\<close>

fun load_files :: "string \<Rightarrow> (string \<times> entry) list \<Rightarrow> store \<Rightarrow> store \<times> (js_error + unit)" where
  "load_files dbName [] st = (st, Inr ())"
| "load_files dbName ((collFile, e) # rest) st =
     (if endsWith collFile ''.json'' then
        (case e of
           File (JsonDocs docs) \<Rightarrow>
             load_files dbName rest
               (put_collection (fullName dbName (basename collFile ''.json'')) docs st)
         | _ \<Rightarrow> (st, Inl LoadError))
      else load_files dbName rest st)"

text \<open>The outer loop, over the entries of the storage directory.\<close>

fun load_databases :: "(string \<times> top_entry) list \<Rightarrow> store \<Rightarrow> store \<times> (js_error + unit)" where
  "load_databases [] st = (st, Inr ())"
| "load_databases ((file, e) # rest) st =
     (case e of
        DbDir collectionFiles \<Rightarrow>
          (case load_files file collectionFiles (st\<lparr> databases := set_add file (databases st) \<rparr>) of
             (st', Inl err) \<Rightarrow> (st', Inl err)
           | (st', Inr u) \<Rightarrow> load_databases rest st')
      | TopFile \<Rightarrow> load_databases rest st)"

definition loadPersistedData :: "store \<Rightarrow> disk \<Rightarrow> store \<times> (js_error + unit)" where
  "loadPersistedData st d =
     (case d of
        StorageDir files \<Rightarrow> load_databases files st
      | _ \<Rightarrow> (st, Inl LoadError))"

text \<open>\<open>fs.mkdir(dbPath, { recursive: true })\<close>\<close>

definition mkdir_db :: "disk \<Rightarrow> string \<Rightarrow> js_error + disk" where
  "mkdir_db d dbName =
     (case d of
        Missing \<Rightarrow> Inr (StorageDir [(dbName, DbDir [])])
      | NotADirectory \<Rightarrow> Inl IOError
      | StorageDir files \<Rightarrow>
          (case map_of files dbName of
             None \<Rightarrow> Inr (StorageDir (files @ [(dbName, DbDir [])]))
           | Some (DbDir fs) \<Rightarrow> Inr d
           | Some TopFile \<Rightarrow> Inl IOError))"

text \<open>\<open>fs.writeFile(filePath, text)\<close> for a file in a database directory\<close>

definition writeFile :: "disk \<Rightarrow> string \<Rightarrow> string \<Rightarrow> content \<Rightarrow> js_error + disk" where
  "writeFile d dbName fileName text =
     (case d of
        StorageDir files \<Rightarrow>
          (case map_of files dbName of
             Some (DbDir fs) \<Rightarrow>
               (case map_of fs fileName of
                  Some SubDir \<Rightarrow> Inl IOError
                | _ \<Rightarrow>
                    Inr (StorageDir
                          (AList.update dbName (DbDir (AList.update fileName (File text) fs)) files)))
           | _ \<Rightarrow> Inl IOError)
      | _ \<Rightarrow> Inl IOError)"

definition persistCollection ::
  "store \<Rightarrow> disk \<Rightarrow> string \<Rightarrow> string \<Rightarrow> document list option \<Rightarrow> disk \<times> (js_error + unit)" where
  "persistCollection st d dbName collectionName data =
     (if storageMode st = ''disk'' then
        (case mkdir_db d dbName of
           Inl e \<Rightarrow> (d, Inl e)
         | Inr d1 \<Rightarrow>
             (case JSON_stringify data of
                None \<Rightarrow> (d1, Inl TypeError)
              | Some text \<Rightarrow>
                  (case writeFile d1 dbName (collectionName @ ''.json'') text of
                     Inl e \<Rightarrow> (d1, Inl e)
                   | Inr d2 \<Rightarrow> (d2, Inr ()))))
      else (d, Inr ()))"

text \<open>The loop of \<open>_dumpChangedCollections()\<close> over the dirty set.\<close>

fun dump_loop :: "store \<Rightarrow> string list \<Rightarrow> disk \<Rightarrow> disk \<times> (js_error + unit)" where
  "dump_loop st [] d = (d, Inr ())"
| "dump_loop st (fullCollectionName # rest) d =
     (case persistCollection st d (fst (split_name fullCollectionName))
             (snd (split_name fullCollectionName)) (collections st fullCollectionName) of
        (d', Inl e) \<Rightarrow> (d', Inl e)
      | (d', Inr u) \<Rightarrow> dump_loop st rest d')"

definition dumpChangedCollections :: "store \<Rightarrow> disk \<Rightarrow> store \<times> disk \<times> (js_error + unit)" where
  "dumpChangedCollections st d =
     (case dump_loop st (changedCollections st) d of
        (d', Inl e) \<Rightarrow> (st, d', Inl e)
      | (d', Inr u) \<Rightarrow> (st\<lparr> changedCollections := [] \<rparr>, d', Inr ()))"

text \<open>
  One firing of the timer that \<open>_startIdleDump()\<close> sets: the error of a dump is
  caught and logged.
\<close>

definition idle_tick :: "int \<Rightarrow> store \<Rightarrow> disk \<Rightarrow> store \<times> disk" where
  "idle_tick now st d =
     (if now - lastActivity st > idleTimeout st \<and> length (changedCollections st) > 0
      then (case dumpChangedCollections st d of (st', d', r) \<Rightarrow> (st', d'))
      else (st, d))"

text \<open>\<open>initialize()\<close>: an error is logged and raised again.\<close>

definition initialize ::
  "(string \<Rightarrow> string) \<Rightarrow> store \<Rightarrow> disk \<Rightarrow> string \<Rightarrow> store \<times> disk \<times> (js_error + unit)" where
  "initialize hash st d new_id =
     (case loadPersistedData st (ensureStorageDirectory d) of
        (st1, Inl e) \<Rightarrow> (st1, ensureStorageDirectory d, Inl e)
      | (st1, Inr u) \<Rightarrow>
          ((ensureAdminUser hash
              (if storageMode st1 = ''disk'' then st1\<lparr> idleTimer := True \<rparr> else st1) new_id)
             \<lparr> isInitialized := True \<rparr>,
           ensureStorageDirectory d, Inr ()))"

section \<open>Vocabulary of the properties\<close>

text \<open>
  An instance of the language parameters for evaluating examples: numbers compare as
  integers, every other comparison is undefined, and no two objects are the same.
\<close>

definition example_semantics :: js_semantics where
  "example_semantics =
     \<lparr> less_than = (\<lambda>x y. case (x, y) of (JNum a, JNum b) \<Rightarrow> Some (a < b) | _ \<Rightarrow> None),
       same_object = (\<lambda>x y. False) \<rparr>"

text \<open>
  The operators that compare with \<open>>\<close>, \<open><\<close>, \<open>>=\<close>, \<open><=\<close>, and the operators
  the matcher knows.
\<close>

definition relational :: "string \<Rightarrow> bool" where
  "relational operator = (operator \<in> set [''$gt'', ''$lt'', ''$gte'', ''$lte''])"

definition recognized :: "string \<Rightarrow> bool" where
  "recognized operator =
     (operator \<in> set [''$eq'', ''$ne'', ''$gt'', ''$gte'', ''$lt'', ''$lte'', ''$in'', ''$nin''])"

definition is_array :: "jsval \<Rightarrow> bool" where
  "is_array v = (case v of JArr xs \<Rightarrow> True | _ \<Rightarrow> False)"

text \<open>
  No operand of a relational operator in the filter raises when it is converted to a
  primitive: neither the field of the document nor the comparison value.
\<close>

definition operands_convertible :: "document \<Rightarrow> (string \<times> jsval) list \<Rightarrow> bool" where
  "operands_convertible doc entries =
     list_all (\<lambda>(key, v). is_object v \<longrightarrow>
        list_all (\<lambda>(operator, compValue). relational operator \<longrightarrow>
           \<not> ToPrimitive_raises (get doc key) \<and> \<not> ToPrimitive_raises compValue) (spread v))
       entries"

text \<open>
  Some clause of the filter has an operator key outside the recognized set; some
  \<open>$in\<close> or \<open>$nin\<close> clause has a comparison value that is not an array.
\<close>

definition has_unknown_operator :: "(string \<times> jsval) list \<Rightarrow> bool" where
  "has_unknown_operator entries =
     list_ex (\<lambda>(key, v). is_object v \<and>
        list_ex (\<lambda>(operator, compValue). \<not> recognized operator) (spread v)) entries"

definition has_malformed_in :: "(string \<times> jsval) list \<Rightarrow> bool" where
  "has_malformed_in entries =
     list_ex (\<lambda>(key, v). is_object v \<and>
        list_ex (\<lambda>(operator, compValue).
           (operator = ''$in'' \<or> operator = ''$nin'') \<and> \<not> is_array compValue) (spread v)) entries"

text \<open>
  Following the spec's words on upsert: the new document has the filter's literal
  fields (those whose value is not an operator object), overlaid by the fields of the
  update's \<open>$set\<close>, or by the update's own fields when there is no \<open>$set\<close>, and the
  fresh identifier.
\<close>

definition literal_fields :: "(string \<times> jsval) list \<Rightarrow> (string \<times> jsval) list" where
  "literal_fields entries = filter (\<lambda>p. \<not> is_object (snd p)) entries"

definition spec_upsert_fields :: "jsval \<Rightarrow> jsval \<Rightarrow> string \<Rightarrow> (string \<rightharpoonup> jsval)" where
  "spec_upsert_fields filt update new_id =
     (map_of (literal_fields (spread filt))
        ++ map_of (case get_property update ''$set'' of
                     Inr (JObj ps) \<Rightarrow> ps
                   | _ \<Rightarrow> spread update))
       (''_id'' \<mapsto> JStr new_id)"

text \<open>
  Example data: a user with the administrator's grant, as \<open>_ensureAdminUser\<close>
  stores it; three documents; a store whose collection \<open>test.one\<close> holds them.
\<close>

definition admin_user :: jsval where
  "admin_user =
     JObj [(''_id'', JStr ''u0''), (''username'', JStr ''admin''), (''password'', JStr ''h''),
           (''roles'', JArr [JObj [(''resource'', JStr ''*''),
              (''permissions'', JArr [JStr ''read'', JStr ''write'', JStr ''admin''])]])]"

definition scenario_docs :: "document list" where
  "scenario_docs =
     [[(''name'', JStr ''Alpha''), (''_id'', JStr ''a1'')],
      [(''name'', JStr ''Beta''), (''_id'', JStr ''b2'')],
      [(''name'', JStr ''Alpha''), (''_id'', JStr ''c3'')]]"

definition scenario_store :: store where
  "scenario_store = put_collection (fullName ''test'' ''one'') scenario_docs (JSM ''memory'' 0 0)"

text \<open>
  The index scenario: \<open>{name: "Alpha"}\<close> and \<open>{name: "Beta"}\<close> are inserted into
  \<open>test.one\<close>, an index is created on \<open>name\<close>, and Beta is deleted.
\<close>

definition alpha_beta_store :: store where
  "alpha_beta_store =
     fst (insertOne
            (fst (insertOne (db_collection (JSM ''memory'' 0 0) ''test'' ''one'')
                    ''test'' ''one'' 1 ''id1'' (JObj [(''name'', JStr ''Alpha'')]) admin_user))
            ''test'' ''one'' 2 ''id2'' (JObj [(''name'', JStr ''Beta'')]) admin_user)"

definition indexed_store :: store where
  "indexed_store = fst (collection_createIndex alpha_beta_store ''test'' ''one'' ''name'' admin_user)"

definition beta_deleted_store :: "js_semantics \<Rightarrow> store" where
  "beta_deleted_store J =
     fst (deleteOne J indexed_store ''test'' ''one'' 3 (JObj [(''name'', JStr ''Beta'')]) admin_user)"

text \<open>
  \<open>this._indexes[name][field][key]\<close>
\<close>

definition index_entry :: "store \<Rightarrow> string \<Rightarrow> string \<Rightarrow> string \<Rightarrow> nat list option" where
  "index_entry st name field key =
     (case indexes st name of
        None \<Rightarrow> None
      | Some t \<Rightarrow> (case t field of None \<Rightarrow> None | Some index \<Rightarrow> index key))"

text \<open>
  The document \<open>registerUser\<close> stores for a user without roles, and the users
  stored so far.
\<close>

definition registered_user :: "(string \<Rightarrow> string) \<Rightarrow> string \<Rightarrow> string \<Rightarrow> string \<Rightarrow> document" where
  "registered_user hash username password new_id =
     [(''username'', JStr username), (''password'', JStr (hash password)),
      (''roles'', default_roles), (''_id'', JStr new_id)]"

definition users_of :: "store \<Rightarrow> document list" where
  "users_of st = (case collections st ''auth.users'' of None \<Rightarrow> [] | Some us \<Rightarrow> us)"

text \<open>
  Example data for the persistence scheduler: a store in disk mode with three dirty
  collections, a storage directory in which \<open>a\<close> is a regular file, a storage
  directory that holds one collection file, a store whose only collection has a dot
  in its name, and a store with the collections \<open>items\<close> and \<open>items.v2\<close> of one
  database.
\<close>

definition one_doc :: "document list" where
  "one_doc = [[(''name'', JStr ''pen''), (''_id'', JStr ''id1'')]]"

definition three_dirty_store :: store where
  "three_dirty_store =
     (JSM ''disk'' 0 0)
       \<lparr> collections := [''b.y'' \<mapsto> one_doc, ''a.x'' \<mapsto> one_doc, ''c.z'' \<mapsto> one_doc],
         changedCollections := [''b.y'', ''a.x'', ''c.z''] \<rparr>"

definition blocked_disk :: disk where
  "blocked_disk = StorageDir [(''a'', TopFile)]"

definition stocked_disk :: disk where
  "stocked_disk = StorageDir [(''shop'', DbDir [(''items.json'', File (JsonDocs one_doc))])]"

definition dotted_store :: store where
  "dotted_store =
     fst (insertOne (db_collection (JSM ''disk'' 0 0) ''shop'' ''items.v2'')
            ''shop'' ''items.v2'' 1 ''id1'' (JObj [(''name'', JStr ''pen'')]) JUndefined)"

definition two_items_store :: store where
  "two_items_store =
     fst (insertOne
            (db_collection
               (fst (insertOne (db_collection (JSM ''disk'' 0 0) ''shop'' ''items'')
                       ''shop'' ''items'' 1 ''id1'' (JObj [(''name'', JStr ''pen'')]) JUndefined))
               ''shop'' ''items.v2'')
            ''shop'' ''items.v2'' 2 ''id2'' (JObj [(''name'', JStr ''ink'')]) JUndefined)"

text \<open>
  Names and documents that survive a dump: a name is not empty and has no dot and no
  path separator; a value has no \<open>undefined\<close>, no \<open>NaN\<close> and no infinity in it.
  A dirty name is simple when it is \<open>database.collection\<close> for two such names.
\<close>

definition simple_name :: "string \<Rightarrow> bool" where
  "simple_name n = (n \<noteq> [] \<and> CHR ''.'' \<notin> set n \<and> CHR ''/'' \<notin> set n)"

definition simple_full_name :: "string \<Rightarrow> bool" where
  "simple_full_name k = (simple_name (fst (split_name k)) \<and> simple_name (snd (split_name k))
      \<and> k = fullName (fst (split_name k)) (snd (split_name k)))"

fun json_safe :: "jsval \<Rightarrow> bool" where
  "json_safe JUndefined = False"
| "json_safe JNaN = False"
| "json_safe (JInfinity positive) = False"
| "json_safe (JArr xs) = list_all json_safe xs"
| "json_safe (JObj ps) = list_all (\<lambda>p. json_safe (snd p)) ps"
| "json_safe v = True"

definition json_safe_document :: "document \<Rightarrow> bool" where
  "json_safe_document doc = list_all (\<lambda>p. json_safe (snd p)) doc"

text \<open>
  The entry of a file in a database directory, and the storage directories in which
  every directory lists a name once.
\<close>

definition file_at :: "disk \<Rightarrow> string \<Rightarrow> string \<Rightarrow> entry option" where
  "file_at d dbName fileName =
     (case d of
        StorageDir files \<Rightarrow>
          (case map_of files dbName of
             Some (DbDir fs) \<Rightarrow> map_of fs fileName
           | _ \<Rightarrow> None)
      | _ \<Rightarrow> None)"

fun distinct_names :: "top_entry \<Rightarrow> bool" where
  "distinct_names (DbDir fs) = distinct (map fst fs)"
| "distinct_names TopFile = True"

definition wf_disk :: "disk \<Rightarrow> bool" where
  "wf_disk d =
     (case d of
        StorageDir files \<Rightarrow> distinct (map fst files) \<and> list_all (\<lambda>p. distinct_names (snd p)) files
      | _ \<Rightarrow> True)"

definition simple_store :: store where
  "simple_store =
     (JSM ''disk'' 0 0)
       \<lparr> databases := [''shop''],
         collections := [''shop.items'' \<mapsto> one_doc],
         changedCollections := [''shop.items''] \<rparr>"

section \<open>Auxiliary facts about the store\<close>

lemma collections_put_collection [simp]:
  "collections (put_collection name docs st) = (collections st)(name \<mapsto> docs)"
  by (simp add: put_collection_def)

lemma collections_mark_changed [simp]: "collections (mark_changed name st) = collections st"
  by (simp add: mark_changed_def)

lemma collections_touch [simp]: "collections (touch now st) = collections st"
  by (simp add: touch_def)

lemma collections_put_index [simp]: "collections (put_index n f i st) = collections st"
  by (simp add: put_index_def)

lemma collections_ensure_index_table [simp]: "collections (ensure_index_table n st) = collections st"
  by (simp add: ensure_index_table_def split: option.splits)

lemma fold_update_apply:
  "distinct (map fst src) \<Longrightarrow>
     map_of (fold (\<lambda>(k, v) t. AList.update k v t) src t) x = (map_of t ++ map_of src) x"
proof (induction src arbitrary: t)
  case Nil
  show ?case by simp
next
  case (Cons p src)
  obtain k v where p: "p = (k, v)" by (cases p)
  from Cons.prems p have k: "map_of src k = None" and d: "distinct (map fst src)"
    by (auto simp: map_of_eq_None_iff)
  have "map_of (fold (\<lambda>(k, v) t. AList.update k v t) (p # src) t) x
          = (map_of (AList.update k v t) ++ map_of src) x"
    using Cons.IH[OF d, of "AList.update k v t"] by (simp add: p)
  also have "\<dots> = (map_of t ++ map_of (p # src)) x"
    using k p by (simp add: map_add_def update_conv split: option.splits)
  finally show ?case .
qed

lemma distinct_assignable:
  "distinct (map fst src) \<Longrightarrow> distinct (map fst (assignable target src))"
  by (simp add: assignable_def distinct_map_filter)

lemma map_of_assign:
  "distinct (map fst src) \<Longrightarrow>
     map_of (assign target src) x = (map_of target ++ map_of (assignable target src)) x"
  unfolding assign_def by (rule fold_update_apply) (rule distinct_assignable)

lemma assignable_delete:
  "assignable target (AList.delete k src) = AList.delete k (assignable target src)"
  by (induction src) (auto simp: assignable_def)

lemma assignable_no_proto:
  "''__proto__'' \<notin> set (map fst target) \<Longrightarrow> assignable target src = assignable [] src"
  by (simp add: assignable_def)

lemma map_of_only_id:
  "k \<noteq> ''_id'' \<Longrightarrow> map_of (filter (\<lambda>p. fst p = ''_id'') doc) k = None"
  by (induction doc) auto

lemma get_update_same [simp]: "get (AList.update k v ps) k = v"
  by (simp add: get_def update_conv')

lemma admin_user_permitted:
  "truthy admin_user \<and> checkPermission admin_user (fullName ''test'' ''one'') ''write'' = Inr True"
  by (simp add: admin_user_def checkPermission_def hasPermission_def get_def is_admin_role_def
      permissions_include_def)

lemma admin_may:
  "absent_or_permitted admin_user (fullName ''test'' ''one'') p = Inr True"
  by (simp add: absent_or_permitted_def admin_user_def checkPermission_def hasPermission_def get_def
      is_admin_role_def permissions_include_def)

section \<open>Properties of the query matcher\<close>

lemma match_operator_total:
  assumes "relational operator \<longrightarrow> \<not> ToPrimitive_raises field \<and> \<not> ToPrimitive_raises compValue"
  shows "\<exists>b. match_operator J field operator compValue = Inr b"
  using assms
  by (auto simp: match_operator_def relational_def js_gt_def js_lt_def js_ge_def js_le_def IsLessThan_def)

lemma match_operator_unknown:
  "\<not> recognized operator \<Longrightarrow> match_operator J field operator compValue = Inr False"
  by (simp add: match_operator_def recognized_def)

lemma match_operator_malformed_in:
  "operator = ''$in'' \<or> operator = ''$nin'' \<Longrightarrow> \<not> is_array compValue
     \<Longrightarrow> match_operator J field operator compValue = Inr False"
  by (auto simp: match_operator_def is_array_def split: jsval.splits)

lemma match_operators_total:
  assumes "list_all (\<lambda>(operator, compValue). relational operator \<longrightarrow>
           \<not> ToPrimitive_raises field \<and> \<not> ToPrimitive_raises compValue) ops"
  shows "\<exists>b. match_operators J field ops = Inr b"
  using assms
proof (induction ops)
  case Nil
  show ?case by auto
next
  case (Cons p ops)
  obtain operator compValue where p: "p = (operator, compValue)" by (cases p)
  from Cons.prems p obtain b where "match_operator J field operator compValue = Inr b"
    using match_operator_total[of operator field compValue J] by auto
  moreover from Cons obtain b' where "match_operators J field ops = Inr b'" by auto
  ultimately show ?case using p by (cases b) auto
qed

lemma match_operators_True:
  "match_operators J field ops = Inr True \<Longrightarrow> (operator, compValue) \<in> set ops
     \<Longrightarrow> match_operator J field operator compValue = Inr True"
proof (induction ops)
  case Nil
  then show ?case by simp
next
  case (Cons p ops)
  obtain op' cv' where p: "p = (op', cv')" by (cases p)
  show ?case using Cons p
    by (auto split: sum.splits bool.splits)
qed

lemma match_entries_total:
  assumes "operands_convertible doc entries"
  shows "\<exists>b. match_entries J doc entries = Inr b"
  using assms
proof (induction entries)
  case Nil
  show ?case by auto
next
  case (Cons p entries)
  obtain key v where p: "p = (key, v)" by (cases p)
  from Cons have rest: "\<exists>b. match_entries J doc entries = Inr b"
    by (simp add: operands_convertible_def)
  show ?case
  proof (cases "is_object v")
    case True
    with Cons.prems p obtain b where "match_operators J (get doc key) (spread v) = Inr b"
      using match_operators_total[of "get doc key" "spread v" J]
      by (auto simp: operands_convertible_def)
    with rest True p show ?thesis by (cases b) auto
  next
    case False
    with rest p show ?thesis by auto
  qed
qed

lemma match_entries_True:
  "match_entries J doc entries = Inr True \<Longrightarrow> (key, v) \<in> set entries \<Longrightarrow> is_object v
     \<Longrightarrow> match_operators J (get doc key) (spread v) = Inr True"
proof (induction entries)
  case Nil
  then show ?case by simp
next
  case (Cons p entries)
  obtain k' v' where p: "p = (k', v')" by (cases p)
  show ?case using Cons p
    by (auto split: sum.splits bool.splits if_splits)
qed

lemma failing_operator_not_True:
  assumes "(key, v) \<in> set entries" "is_object v" "(operator, compValue) \<in> set (spread v)"
    and "match_operator J (get doc key) operator compValue = Inr False"
  shows "match_entries J doc entries \<noteq> Inr True"
proof
  assume "match_entries J doc entries = Inr True"
  then have "match_operators J (get doc key) (spread v) = Inr True"
    using assms(1,2) by (rule match_entries_True)
  then have "match_operator J (get doc key) operator compValue = Inr True"
    using assms(3) by (rule match_operators_True)
  with assms(4) show False by simp
qed

text \<open>
  Where no operand of a relational operator raises on its conversion to a primitive,
  the matcher returns a boolean; a clause with an unknown operator key makes the
  document fail the filter, and so does an \<open>$in\<close> or \<open>$nin\<close> clause whose comparison
  value is not an array.
\<close>

lemma matchQuery_fails_closed:
  assumes "Object_entries query = Inr entries"
    and "operands_convertible doc entries"
  shows "(\<exists>b. matchQuery J doc query = Inr b)
       \<and> (has_unknown_operator entries \<longrightarrow> matchQuery J doc query = Inr False)
       \<and> (has_malformed_in entries \<longrightarrow> matchQuery J doc query = Inr False)"
proof -
  have mq: "matchQuery J doc query = match_entries J doc entries"
    using assms(1) by (simp add: matchQuery_def)
  obtain b where b: "match_entries J doc entries = Inr b"
    using match_entries_total[OF assms(2)] by blast
  have unknown: "match_entries J doc entries = Inr False" if "has_unknown_operator entries"
  proof -
    from that obtain key v operator compValue where
      "(key, v) \<in> set entries" "is_object v" "(operator, compValue) \<in> set (spread v)"
      "\<not> recognized operator"
      by (auto simp: has_unknown_operator_def list_ex_iff)
    then have "match_entries J doc entries \<noteq> Inr True"
      using failing_operator_not_True match_operator_unknown by blast
    with b show ?thesis by (cases b) auto
  qed
  have malformed: "match_entries J doc entries = Inr False" if "has_malformed_in entries"
  proof -
    from that obtain key v operator compValue where
      "(key, v) \<in> set entries" "is_object v" "(operator, compValue) \<in> set (spread v)"
      "operator = ''$in'' \<or> operator = ''$nin''" "\<not> is_array compValue"
      by (auto simp: has_malformed_in_def list_ex_iff)
    then have "match_entries J doc entries \<noteq> Inr True"
      using failing_operator_not_True match_operator_malformed_in by blast
    with b show ?thesis by (cases b) auto
  qed
  show ?thesis using mq b unknown malformed by auto
qed

text \<open>
  C7. The claim: the matcher is total, it returns a boolean for every document and
  filter and never raises. The code raises on a malformed comparison value: for the
  filter \<open>{age: {$gt: {toString: 1}}}\<close> the comparison \<open>doc[key] > compValue\<close>
  cannot convert the comparison value to a primitive, and \<open>_matchQuery\<close> ends with a
  TypeError instead of returning false.
\<close>

theorem matchQuery_raises_on_unconvertible_operand:
  "matchQuery example_semantics []
     (JObj [(''age'', JObj [(''$gt'', JObj [(''toString'', JNum 1)])])]) = Inl TypeError"
  by (simp add: matchQuery_def get_def spread_def match_operator_def js_gt_def IsLessThan_def)

section \<open>Properties of deleteOne\<close>

lemma delete_loop_no_error:
  assumes "\<forall>d \<in> set docs. \<exists>b. matchQuery J d filt = Inr b"
  shows "delete_loop J filt docs =
           (filter (\<lambda>d. matchQuery J d filt \<noteq> Inr True) docs,
            length (filter (\<lambda>d. matchQuery J d filt = Inr True) docs), None)"
  using assms
proof (induction docs)
  case Nil
  show ?case by simp
next
  case (Cons d docs)
  then obtain b where b: "matchQuery J d filt = Inr b" by auto
  from Cons have IH: "delete_loop J filt docs =
           (filter (\<lambda>d. matchQuery J d filt \<noteq> Inr True) docs,
            length (filter (\<lambda>d. matchQuery J d filt = Inr True) docs), None)" by simp
  show ?case using b IH by (cases b) simp_all
qed

text \<open>
  C6. For every collection and filter on which the matcher returns a boolean for each
  document, one call of \<open>deleteOne\<close> (by an absent or a permitted user) removes all
  the documents that match the filter, not only the first; it returns their number,
  and the documents that remain are the others, in their order.
\<close>

theorem deleteOne_removes_all_matches:
  assumes "absent_or_permitted user (fullName dbName collectionName) ''write'' = Inr True"
    and "collections st (fullName dbName collectionName) = Some docs"
    and "\<forall>d \<in> set docs. \<exists>b. matchQuery J d filt = Inr b"
  shows "snd (deleteOne J st dbName collectionName now filt user)
           = Inr (JNum (int (length (filter (\<lambda>d. matchQuery J d filt = Inr True) docs))))
       \<and> collections (fst (deleteOne J st dbName collectionName now filt user))
             (fullName dbName collectionName)
           = Some (filter (\<lambda>d. matchQuery J d filt \<noteq> Inr True) docs)"
  using assms(1,2) delete_loop_no_error[OF assms(3)]
  by (simp add: deleteOne_def)

theorem deleteOne_removes_all_matches_witness:
  "absent_or_permitted JUndefined (fullName ''test'' ''one'') ''write'' = Inr True
   \<and> collections (put_collection (fullName ''test'' ''one'') scenario_docs (JSM ''memory'' 0 0))
        (fullName ''test'' ''one'') = Some scenario_docs
   \<and> snd (deleteOne example_semantics
             (put_collection (fullName ''test'' ''one'') scenario_docs (JSM ''memory'' 0 0))
             ''test'' ''one'' 5 (JObj [(''name'', JStr ''Alpha'')]) JUndefined) = Inr (JNum 2)
   \<and> collections (fst (deleteOne example_semantics
             (put_collection (fullName ''test'' ''one'') scenario_docs (JSM ''memory'' 0 0))
             ''test'' ''one'' 5 (JObj [(''name'', JStr ''Alpha'')]) JUndefined))
        (fullName ''test'' ''one'') = Some [[(''name'', JStr ''Beta''), (''_id'', JStr ''b2'')]]"
proof -
  let ?st = "put_collection (fullName ''test'' ''one'') scenario_docs (JSM ''memory'' 0 0)"
  let ?q = "JObj [(''name'', JStr ''Alpha'')]"
  have h1: "absent_or_permitted JUndefined (fullName ''test'' ''one'') ''write'' = Inr True"
    by (simp add: absent_or_permitted_def)
  have h2: "collections ?st (fullName ''test'' ''one'') = Some scenario_docs" by simp
  have m: "matchQuery example_semantics d ?q = Inr (get d ''name'' = JStr ''Alpha'')" for d
    by (simp add: matchQuery_def)
  have h3: "\<forall>d \<in> set scenario_docs. \<exists>b. matchQuery example_semantics d ?q = Inr b"
    by (simp add: m)
  from deleteOne_removes_all_matches [OF h1 h2 h3, of 5] h1 h2
  show ?thesis by (simp add: m scenario_docs_def get_def)
qed

section \<open>Properties of updateOne\<close>

lemma first_match_at:
  assumes "i < length docs"
    and "\<forall>j<i. matchQuery J (docs ! j) filt = Inr False"
    and "matchQuery J (docs ! i) filt = Inr True"
  shows "first_match J filt docs k = Inr (Some (k + i))"
  using assms
proof (induction docs arbitrary: i k)
  case Nil
  then show ?case by simp
next
  case (Cons d docs)
  show ?case
  proof (cases i)
    case 0
    with Cons.prems show ?thesis by simp
  next
    case (Suc i')
    from Cons.prems Suc have d: "matchQuery J d filt = Inr False" by auto
    from Cons.prems Suc have "i' < length docs"
      "\<forall>j<i'. matchQuery J (docs ! j) filt = Inr False"
      "matchQuery J (docs ! i') filt = Inr True" by auto
    from Cons.IH[OF this, of "Suc k"] d Suc show ?thesis by simp
  qed
qed

lemma first_match_none:
  "\<forall>d \<in> set docs. matchQuery J d filt = Inr False \<Longrightarrow> first_match J filt docs k = Inr None"
  by (induction docs arbitrary: k) auto

lemma scenario_store_collection:
  "collections scenario_store (fullName ''test'' ''one'') = Some scenario_docs"
  by (simp add: scenario_store_def)

lemma upsert_option: "upsert_requested (JObj [(''upsert'', JBool True)])"
  by (simp add: upsert_requested_def get_def)

lemma no_Zeta:
  "\<forall>d \<in> set scenario_docs.
     matchQuery example_semantics d (JObj [(''name'', JStr ''Zeta'')]) = Inr False"
  by (simp add: scenario_docs_def matchQuery_def get_def)

lemma replicate_7: "replicate 7 c = [c, c, c, c, c, c, c]"
  by (simp add: numeral_eq_Suc)

lemma no_age_over_30:
  "\<forall>d \<in> set scenario_docs.
     matchQuery example_semantics d (JObj [(''age'', JObj [(''$gt'', JNum 30)])]) = Inr False"
  by (simp add: scenario_docs_def matchQuery_def get_def spread_def match_operator_def js_gt_def
      IsLessThan_def example_semantics_def)

lemma no_supplied_id:
  "\<forall>d \<in> set scenario_docs.
     matchQuery example_semantics d
       (JObj [(''_id'', JStr ''000000050102030405060708090a0b0c''), (''name'', JStr ''Zeta'')])
       = Inr False"
  by (simp add: scenario_docs_def matchQuery_def get_def)

lemma first_Beta:
  "(1::nat) < length scenario_docs
   \<and> matchQuery example_semantics (scenario_docs ! 0) (JObj [(''name'', JStr ''Beta'')]) = Inr False
   \<and> matchQuery example_semantics (scenario_docs ! 1) (JObj [(''name'', JStr ''Beta'')]) = Inr True"
  by (simp add: scenario_docs_def matchQuery_def get_def)

text \<open>
  C5. When document \<open>i\<close> is the first that matches the filter, \<open>updateOne\<close> (by
  a permitted user, with an update that is not \<open>undefined\<close> or \<open>null\<close>) replaces
  that document by the updated one, leaves every other document of the collection as
  it is, and reports one match and one modification. The updated document has the
  identifier of the old one, under a \<open>$set\<close> patch as well as under a full
  replacement. Under a patch its other fields are those of the old document overlaid
  by the fields of \<open>$set\<close>; under a full replacement they are exactly the fields of
  the update, so all the other prior fields are gone. (A field \<open>__proto__\<close> of the
  overlay is assigned only where the target has such a field of its own; the keys of
  the overlay are distinct, as those of an object are.)
\<close>

theorem updateOne_modifies_first_match:
  assumes "truthy user"
    and "checkPermission user (fullName dbName collectionName) ''write'' = Inr True"
    and "collections st (fullName dbName collectionName) = Some docs"
    and "i < length docs"
    and "\<forall>j<i. matchQuery J (docs ! j) filt = Inr False"
    and "matchQuery J (docs ! i) filt = Inr True"
    and "get_property update ''$set'' = Inr s"
    and "distinct (map fst (if truthy s then spread s else spread update))"
  shows "\<exists>updated.
           collections (fst (updateOne J st dbName collectionName now new_id filt update options user))
             (fullName dbName collectionName) = Some (docs[i := updated])
         \<and> snd (updateOne J st dbName collectionName now new_id filt update options user)
             = Inr (update_result 1 1)
         \<and> get updated ''_id'' = get (docs ! i) ''_id''
         \<and> (truthy s \<longrightarrow>
               (\<forall>k. k \<noteq> ''_id'' \<longrightarrow>
                  map_of updated k
                    = (map_of (docs ! i) ++ map_of (assignable (docs ! i) (spread s))) k))
         \<and> (\<not> truthy s \<longrightarrow>
               (\<forall>k. k \<noteq> ''_id'' \<longrightarrow>
                  map_of updated k = map_of (assignable [] (spread update)) k))"
proof -
  let ?doc = "docs ! i"
  let ?updated = "AList.update ''_id'' (get ?doc ''_id'')
                 (if truthy s
                  then assign ?doc (AList.delete ''_id'' (spread s))
                  else assign (filter (\<lambda>p. fst p = ''_id'') ?doc)
                         (AList.delete ''_id'' (spread update)))"
  have fm: "first_match J filt docs 0 = Inr (Some i)"
    using first_match_at[OF assms(4,5,6), of 0] by simp
  have au: "apply_update ?doc update = Inr ?updated"
    using assms(7) by (simp add: apply_update_def)
  have run: "updateOne J st dbName collectionName now new_id filt update options user =
      (touch now (mark_changed (fullName dbName collectionName)
          (put_collection (fullName dbName collectionName) (docs[i := ?updated]) st)),
       Inr (update_result 1 1))"
    using assms(1,2,3) fm au by (simp add: updateOne_def)
  have patch: "map_of ?updated k = (map_of ?doc ++ map_of (assignable ?doc (spread s))) k"
    if t: "truthy s" and k: "k \<noteq> ''_id''" for k
  proof -
    from assms(8) t have "distinct (map fst (AList.delete ''_id'' (spread s)))"
      by (simp add: distinct_delete)
    from map_of_assign[OF this, of ?doc k]
    have "map_of (assign ?doc (AList.delete ''_id'' (spread s))) k
            = (map_of ?doc ++ map_of (AList.delete ''_id'' (assignable ?doc (spread s)))) k"
      by (simp add: assignable_delete)
    also have "\<dots> = (map_of ?doc ++ map_of (assignable ?doc (spread s))) k"
      using k by (simp add: map_add_def)
    finally show ?thesis using t k by (simp add: update_conv')
  qed
  have repl: "map_of ?updated k = map_of (assignable [] (spread update)) k"
    if t: "\<not> truthy s" and k: "k \<noteq> ''_id''" for k
  proof -
    let ?target = "filter (\<lambda>p. fst p = ''_id'') ?doc"
    from assms(8) t have "distinct (map fst (AList.delete ''_id'' (spread update)))"
      by (simp add: distinct_delete)
    from map_of_assign[OF this, of ?target k]
    have "map_of (assign ?target (AList.delete ''_id'' (spread update))) k
            = (map_of ?target ++ map_of (AList.delete ''_id'' (assignable ?target (spread update)))) k"
      by (simp add: assignable_delete)
    also have "\<dots> = map_of (assignable ?target (spread update)) k"
      using k map_of_only_id[OF k, of ?doc] by (simp add: map_add_def split: option.splits)
    also have "assignable ?target (spread update) = assignable [] (spread update)"
      by (rule assignable_no_proto) auto
    finally show ?thesis using t k by (simp add: update_conv')
  qed
  have c1: "collections (fst (updateOne J st dbName collectionName now new_id filt update options user))
             (fullName dbName collectionName) = Some (docs[i := ?updated])"
    by (simp add: run)
  have c2: "snd (updateOne J st dbName collectionName now new_id filt update options user)
             = Inr (update_result 1 1)"
    by (simp add: run)
  have c3: "get ?updated ''_id'' = get ?doc ''_id''" by simp
  from c1 c2 c3 patch repl show ?thesis by blast
qed

theorem updateOne_modifies_first_match_witness:
  "truthy admin_user
   \<and> checkPermission admin_user (fullName ''test'' ''one'') ''write'' = Inr True
   \<and> collections scenario_store (fullName ''test'' ''one'') = Some scenario_docs
   \<and> (1::nat) < length scenario_docs
   \<and> matchQuery example_semantics (scenario_docs ! 0) (JObj [(''name'', JStr ''Beta'')]) = Inr False
   \<and> matchQuery example_semantics (scenario_docs ! 1) (JObj [(''name'', JStr ''Beta'')]) = Inr True
   \<and> updateOne example_semantics scenario_store ''test'' ''one'' 5 ''id9''
          (JObj [(''name'', JStr ''Beta'')])
          (JObj [(''$set'', JObj [(''name'', JStr ''B2''), (''size'', JNum 3), (''_id'', JStr ''zz'')])])
          JUndefined admin_user
       = (mark_changed (fullName ''test'' ''one'')
            (put_collection (fullName ''test'' ''one'')
               [[(''name'', JStr ''Alpha''), (''_id'', JStr ''a1'')],
                [(''name'', JStr ''B2''), (''_id'', JStr ''b2''), (''size'', JNum 3)],
                [(''name'', JStr ''Alpha''), (''_id'', JStr ''c3'')]] scenario_store),
          Inr (update_result 1 1))
   \<and> updateOne example_semantics scenario_store ''test'' ''one'' 5 ''id9''
          (JObj [(''name'', JStr ''Beta'')])
          (JObj [(''size'', JNum 3), (''_id'', JStr ''zz'')])
          JUndefined admin_user
       = (mark_changed (fullName ''test'' ''one'')
            (put_collection (fullName ''test'' ''one'')
               [[(''name'', JStr ''Alpha''), (''_id'', JStr ''a1'')],
                [(''_id'', JStr ''b2''), (''size'', JNum 3)],
                [(''name'', JStr ''Alpha''), (''_id'', JStr ''c3'')]] scenario_store),
          Inr (update_result 1 1))"
proof -
  let ?q = "JObj [(''name'', JStr ''Beta'')]"
  let ?s = "JObj [(''name'', JStr ''B2''), (''size'', JNum 3), (''_id'', JStr ''zz'')]"
  let ?patch = "JObj [(''$set'', ?s)]"
  let ?whole = "JObj [(''size'', JNum 3), (''_id'', JStr ''zz'')]"
  note u = conjunct1[OF admin_user_permitted]
  note p = conjunct2[OF admin_user_permitted]
  note h4 = conjunct1[OF first_Beta]
  note m0 = conjunct1[OF conjunct2[OF first_Beta]]
  note m1 = conjunct2[OF conjunct2[OF first_Beta]]
  have h5: "\<forall>j<1. matchQuery example_semantics (scenario_docs ! j) ?q = Inr False"
    using m0 by simp
  have p7: "get_property ?patch ''$set'' = Inr ?s" by (simp add: get_def)
  have p8: "distinct (map fst (if truthy ?s then spread ?s else spread ?patch))"
    by (simp add: spread_def)
  have w7: "get_property ?whole ''$set'' = Inr JUndefined" by (simp add: get_def)
  have w8: "distinct (map fst (if truthy JUndefined then spread JUndefined else spread ?whole))"
    by (simp add: spread_def)
  have fm: "first_match example_semantics ?q scenario_docs 0 = Inr (Some 1)"
    using first_match_at[OF h4 h5 m1, of 0] by simp
  have mode: "storageMode scenario_store = ''memory''"
    by (simp add: scenario_store_def put_collection_def JSM_def)
  from updateOne_modifies_first_match [OF u p scenario_store_collection h4 h5 m1 p7 p8,
      where now = 5 and new_id = "''id9''" and options = JUndefined]
  have r1: "snd (updateOne example_semantics scenario_store ''test'' ''one'' 5 ''id9''
          ?q ?patch JUndefined admin_user) = Inr (update_result 1 1)"
    by blast
  from updateOne_modifies_first_match [OF u p scenario_store_collection h4 h5 m1 w7 w8,
      where now = 5 and new_id = "''id9''" and options = JUndefined]
  have r2: "snd (updateOne example_semantics scenario_store ''test'' ''one'' 5 ''id9''
          ?q ?whole JUndefined admin_user) = Inr (update_result 1 1)"
    by blast
  have s1: "fst (updateOne example_semantics scenario_store ''test'' ''one'' 5 ''id9''
          ?q ?patch JUndefined admin_user)
       = mark_changed (fullName ''test'' ''one'')
            (put_collection (fullName ''test'' ''one'')
               [[(''name'', JStr ''Alpha''), (''_id'', JStr ''a1'')],
                [(''name'', JStr ''B2''), (''_id'', JStr ''b2''), (''size'', JNum 3)],
                [(''name'', JStr ''Alpha''), (''_id'', JStr ''c3'')]] scenario_store)"
    using u p scenario_store_collection fm mode
    by (simp add: updateOne_def apply_update_def get_def spread_def assign_def assignable_def
        scenario_docs_def touch_def mark_changed_def put_collection_def)
  have s2: "fst (updateOne example_semantics scenario_store ''test'' ''one'' 5 ''id9''
          ?q ?whole JUndefined admin_user)
       = mark_changed (fullName ''test'' ''one'')
            (put_collection (fullName ''test'' ''one'')
               [[(''name'', JStr ''Alpha''), (''_id'', JStr ''a1'')],
                [(''_id'', JStr ''b2''), (''size'', JNum 3)],
                [(''name'', JStr ''Alpha''), (''_id'', JStr ''c3'')]] scenario_store)"
    using u p scenario_store_collection fm mode
    by (simp add: updateOne_def apply_update_def get_def spread_def assign_def assignable_def
        scenario_docs_def touch_def mark_changed_def put_collection_def)
  have e1: "updateOne example_semantics scenario_store ''test'' ''one'' 5 ''id9''
          ?q ?patch JUndefined admin_user
       = (mark_changed (fullName ''test'' ''one'')
            (put_collection (fullName ''test'' ''one'')
               [[(''name'', JStr ''Alpha''), (''_id'', JStr ''a1'')],
                [(''name'', JStr ''B2''), (''_id'', JStr ''b2''), (''size'', JNum 3)],
                [(''name'', JStr ''Alpha''), (''_id'', JStr ''c3'')]] scenario_store),
          Inr (update_result 1 1))"
    using r1 s1 by (simp add: prod_eq_iff)
  have e2: "updateOne example_semantics scenario_store ''test'' ''one'' 5 ''id9''
          ?q ?whole JUndefined admin_user
       = (mark_changed (fullName ''test'' ''one'')
            (put_collection (fullName ''test'' ''one'')
               [[(''name'', JStr ''Alpha''), (''_id'', JStr ''a1'')],
                [(''_id'', JStr ''b2''), (''size'', JNum 3)],
                [(''name'', JStr ''Alpha''), (''_id'', JStr ''c3'')]] scenario_store),
          Inr (update_result 1 1))"
    using r2 s2 by (simp add: prod_eq_iff)
  from u p scenario_store_collection h4 m0 m1 e1 e2 show ?thesis by blast
qed

text \<open>
  C4, as amended. When no document matches the filter and \<open>options.upsert\<close> is
  true, \<open>updateOne\<close> (by a permitted user, with an update that is not \<open>undefined\<close>
  or \<open>null\<close>) appends exactly one document and reports an upsert with its
  identifier. The fields of the new document are all the fields of the filter,
  operator objects included, overlaid by the fields of the update's \<open>$set\<close> when
  that is truthy and by the update's own fields otherwise (a field \<open>__proto__\<close> of
  the overlay is assigned only where the filter has such a field of its own); an
  identifier that the filter or the update supplies is dropped, and the field
  \<open>_id\<close> is the identifier generated in the call, whatever the supplied one was.
\<close>

theorem updateOne_upsert_inserts:
  assumes "truthy user"
    and "checkPermission user (fullName dbName collectionName) ''write'' = Inr True"
    and "collections st (fullName dbName collectionName) = Some docs"
    and "\<forall>d \<in> set docs. matchQuery J d filt = Inr False"
    and "upsert_requested options"
    and "get_property update ''$set'' = Inr s"
    and "distinct (map fst (if truthy s then spread s else spread update))"
  shows "\<exists>newDoc.
           collections (fst (updateOne J st dbName collectionName now new_id filt update options user))
             (fullName dbName collectionName) = Some (docs @ [newDoc])
         \<and> snd (updateOne J st dbName collectionName now new_id filt update options user)
             = Inr (upsert_result new_id)
         \<and> map_of newDoc =
             (map_of (spread filt)
                ++ map_of (assignable (spread filt) (if truthy s then spread s else spread update)))
               (''_id'' \<mapsto> JStr new_id)"
proof -
  let ?overlay = "if truthy s then spread s else spread update"
  let ?newDoc = "with_id (AList.delete ''_id'' (assign (spread filt) ?overlay)) new_id"
  have fm: "first_match J filt docs 0 = Inr None"
    using assms(4) by (rule first_match_none)
  have ud: "upsert_document filt update new_id = Inr ?newDoc"
    using assms(6) by (simp add: upsert_document_def)
  have run: "updateOne J st dbName collectionName now new_id filt update options user =
      (touch now (mark_changed (fullName dbName collectionName)
          (put_collection (fullName dbName collectionName) (docs @ [?newDoc]) st)),
       Inr (upsert_result new_id))"
    using assms(1,2,3,5) fm ud by (simp add: updateOne_def)
  have c1: "collections (fst (updateOne J st dbName collectionName now new_id filt update options user))
             (fullName dbName collectionName) = Some (docs @ [?newDoc])"
    by (simp add: run)
  have c2: "snd (updateOne J st dbName collectionName now new_id filt update options user)
             = Inr (upsert_result new_id)"
    by (simp add: run)
  have c3: "map_of ?newDoc =
      (map_of (spread filt) ++ map_of (assignable (spread filt) ?overlay))(''_id'' \<mapsto> JStr new_id)"
  proof (rule ext)
    fix k
    show "map_of ?newDoc k =
      ((map_of (spread filt) ++ map_of (assignable (spread filt) ?overlay))(''_id'' \<mapsto> JStr new_id)) k"
      using map_of_assign[OF assms(7), of "spread filt" k]
      by (simp add: with_id_def update_conv' delete_conv')
  qed
  from c1 c2 c3 show ?thesis by blast
qed

theorem updateOne_upsert_inserts_witness:
  "truthy admin_user
   \<and> checkPermission admin_user (fullName ''test'' ''one'') ''write'' = Inr True
   \<and> collections scenario_store (fullName ''test'' ''one'') = Some scenario_docs
   \<and> length scenario_docs = 3
   \<and> matchQuery example_semantics (scenario_docs ! 0) (JObj [(''name'', JStr ''Zeta'')]) = Inr False
   \<and> matchQuery example_semantics (scenario_docs ! 1) (JObj [(''name'', JStr ''Zeta'')]) = Inr False
   \<and> matchQuery example_semantics (scenario_docs ! 2) (JObj [(''name'', JStr ''Zeta'')]) = Inr False
   \<and> upsert_requested (JObj [(''upsert'', JBool True)])
   \<and> collections (fst (updateOne example_semantics scenario_store ''test'' ''one'' 7 ''id9''
          (JObj [(''name'', JStr ''Zeta'')]) (JObj [(''$set'', JObj [(''age'', JNum 42)])])
          (JObj [(''upsert'', JBool True)]) admin_user)) (fullName ''test'' ''one'')
        = Some (scenario_docs @ [[(''name'', JStr ''Zeta''), (''age'', JNum 42), (''_id'', JStr ''id9'')]])
   \<and> snd (updateOne example_semantics scenario_store ''test'' ''one'' 7 ''id9''
          (JObj [(''name'', JStr ''Zeta'')]) (JObj [(''$set'', JObj [(''age'', JNum 42)])])
          (JObj [(''upsert'', JBool True)]) admin_user) = Inr (upsert_result ''id9'')
   \<and> collections (fst (updateOne example_semantics scenario_store ''test'' ''one'' 7 ''id9''
          (JObj [(''name'', JStr ''Zeta'')]) (JObj [(''name'', JStr ''Eta''), (''_id'', JStr ''zz'')])
          (JObj [(''upsert'', JBool True)]) admin_user)) (fullName ''test'' ''one'')
        = Some (scenario_docs @ [[(''name'', JStr ''Eta''), (''_id'', JStr ''id9'')]])
   \<and> snd (updateOne example_semantics scenario_store ''test'' ''one'' 7 ''id9''
          (JObj [(''name'', JStr ''Zeta'')]) (JObj [(''name'', JStr ''Eta''), (''_id'', JStr ''zz'')])
          (JObj [(''upsert'', JBool True)]) admin_user) = Inr (upsert_result ''id9'')"
proof -
  let ?q = "JObj [(''name'', JStr ''Zeta'')]"
  let ?patch = "JObj [(''$set'', JObj [(''age'', JNum 42)])]"
  let ?whole = "JObj [(''name'', JStr ''Eta''), (''_id'', JStr ''zz'')]"
  let ?opt = "JObj [(''upsert'', JBool True)]"
  have m: "matchQuery example_semantics (scenario_docs ! 0) ?q = Inr False"
    "matchQuery example_semantics (scenario_docs ! 1) ?q = Inr False"
    "matchQuery example_semantics (scenario_docs ! 2) ?q = Inr False"
    "length scenario_docs = 3"
    by (simp_all add: scenario_docs_def matchQuery_def get_def)
  have p6: "get_property ?patch ''$set'' = Inr (JObj [(''age'', JNum 42)])"
    by (simp add: get_def)
  have p7: "distinct (map fst (if truthy (JObj [(''age'', JNum 42)])
              then spread (JObj [(''age'', JNum 42)]) else spread ?patch))"
    by (simp add: spread_def)
  have w6: "get_property ?whole ''$set'' = Inr JUndefined"
    by (simp add: get_def)
  have w7: "distinct (map fst (if truthy JUndefined then spread JUndefined else spread ?whole))"
    by (simp add: spread_def)
  have fm: "first_match example_semantics ?q scenario_docs 0 = Inr None"
    using no_Zeta by (rule first_match_none)
  from updateOne_upsert_inserts [OF conjunct1[OF admin_user_permitted]
      conjunct2[OF admin_user_permitted] scenario_store_collection no_Zeta upsert_option p6 p7,
      where now = 7 and new_id = "''id9''"]
  have r1: "snd (updateOne example_semantics scenario_store ''test'' ''one'' 7 ''id9''
          ?q ?patch ?opt admin_user) = Inr (upsert_result ''id9'')"
    by blast
  from updateOne_upsert_inserts [OF conjunct1[OF admin_user_permitted]
      conjunct2[OF admin_user_permitted] scenario_store_collection no_Zeta upsert_option w6 w7,
      where now = 7 and new_id = "''id9''"]
  have r2: "snd (updateOne example_semantics scenario_store ''test'' ''one'' 7 ''id9''
          ?q ?whole ?opt admin_user) = Inr (upsert_result ''id9'')"
    by blast
  have s1: "collections (fst (updateOne example_semantics scenario_store ''test'' ''one'' 7 ''id9''
          ?q ?patch ?opt admin_user)) (fullName ''test'' ''one'')
        = Some (scenario_docs @ [[(''name'', JStr ''Zeta''), (''age'', JNum 42), (''_id'', JStr ''id9'')]])"
    using admin_user_permitted scenario_store_collection upsert_option fm
    by (simp add: updateOne_def upsert_document_def get_def spread_def assign_def assignable_def
        with_id_def)
  have s2: "collections (fst (updateOne example_semantics scenario_store ''test'' ''one'' 7 ''id9''
          ?q ?whole ?opt admin_user)) (fullName ''test'' ''one'')
        = Some (scenario_docs @ [[(''name'', JStr ''Eta''), (''_id'', JStr ''id9'')]])"
    using admin_user_permitted scenario_store_collection upsert_option fm
    by (simp add: updateOne_def upsert_document_def get_def spread_def assign_def assignable_def
        with_id_def)
  from admin_user_permitted scenario_store_collection m upsert_option r1 r2 s1 s2
  show ?thesis by blast
qed

text \<open>
  C4 as stated fails in two places, here on a collection of three documents none of
  which matches. With the filter \<open>{age: {$gt: 30}}\<close> the upserted document has the
  field \<open>age\<close>, holding the operator object, which is not a literal field of the
  filter. And the generated identifier is not compared with a supplied one: when the
  filter supplies the identifier that \<open>_generateUniqueId()\<close> returns in the call,
  the new document has that very identifier.
\<close>

theorem updateOne_upsert_counterexample:
  "collections (fst (updateOne example_semantics scenario_store ''test'' ''one'' 7 ''id9''
          (JObj [(''age'', JObj [(''$gt'', JNum 30)])]) (JObj [(''$set'', JObj [(''name'', JStr ''Zed'')])])
          (JObj [(''upsert'', JBool True)]) admin_user)) (fullName ''test'' ''one'')
     = Some (scenario_docs @
         [[(''age'', JObj [(''$gt'', JNum 30)]), (''name'', JStr ''Zed''), (''_id'', JStr ''id9'')]])
   \<and> spec_upsert_fields (JObj [(''age'', JObj [(''$gt'', JNum 30)])])
        (JObj [(''$set'', JObj [(''name'', JStr ''Zed'')])]) ''id9'' ''age'' = None
   \<and> generateUniqueId 5000 [1, 2, 3, 4, 5, 6, 7, 8, 9, 10, 11, 12]
        = ''000000050102030405060708090a0b0c''
   \<and> collections (fst (updateOne example_semantics scenario_store ''test'' ''one'' 5000
          (generateUniqueId 5000 [1, 2, 3, 4, 5, 6, 7, 8, 9, 10, 11, 12])
          (JObj [(''_id'', JStr ''000000050102030405060708090a0b0c''), (''name'', JStr ''Zeta'')])
          (JObj [(''$set'', JObj [(''age'', JNum 42)])])
          (JObj [(''upsert'', JBool True)]) admin_user)) (fullName ''test'' ''one'')
     = Some (scenario_docs @
         [[(''name'', JStr ''Zeta''), (''age'', JNum 42),
           (''_id'', JStr ''000000050102030405060708090a0b0c'')]])"
proof -
  have fa: "first_match example_semantics (JObj [(''age'', JObj [(''$gt'', JNum 30)])])
              scenario_docs 0 = Inr None"
    using no_age_over_30 by (rule first_match_none)
  have fb: "first_match example_semantics
              (JObj [(''_id'', JStr ''000000050102030405060708090a0b0c''), (''name'', JStr ''Zeta'')])
              scenario_docs 0 = Inr None"
    using no_supplied_id by (rule first_match_none)
  have g: "generateUniqueId 5000 [1, 2, 3, 4, 5, 6, 7, 8, 9, 10, 11, 12]
        = ''000000050102030405060708090a0b0c''"
    by (simp add: generateUniqueId_def padStart_def hex_digit_def replicate_7)
  have a: "collections (fst (updateOne example_semantics scenario_store ''test'' ''one'' 7 ''id9''
          (JObj [(''age'', JObj [(''$gt'', JNum 30)])]) (JObj [(''$set'', JObj [(''name'', JStr ''Zed'')])])
          (JObj [(''upsert'', JBool True)]) admin_user)) (fullName ''test'' ''one'')
     = Some (scenario_docs @
         [[(''age'', JObj [(''$gt'', JNum 30)]), (''name'', JStr ''Zed''), (''_id'', JStr ''id9'')]])"
    using admin_user_permitted scenario_store_collection upsert_option fa
    by (simp add: updateOne_def upsert_document_def get_def spread_def assign_def assignable_def
        with_id_def)
  have s: "spec_upsert_fields (JObj [(''age'', JObj [(''$gt'', JNum 30)])])
        (JObj [(''$set'', JObj [(''name'', JStr ''Zed'')])]) ''id9'' ''age'' = None"
    by (simp add: spec_upsert_fields_def literal_fields_def spread_def get_def)
  have b: "collections (fst (updateOne example_semantics scenario_store ''test'' ''one'' 5000
          ''000000050102030405060708090a0b0c''
          (JObj [(''_id'', JStr ''000000050102030405060708090a0b0c''), (''name'', JStr ''Zeta'')])
          (JObj [(''$set'', JObj [(''age'', JNum 42)])])
          (JObj [(''upsert'', JBool True)]) admin_user)) (fullName ''test'' ''one'')
     = Some (scenario_docs @
         [[(''name'', JStr ''Zeta''), (''age'', JNum 42),
           (''_id'', JStr ''000000050102030405060708090a0b0c'')]])"
    using admin_user_permitted scenario_store_collection upsert_option fb
    by (simp add: updateOne_def upsert_document_def get_def spread_def assign_def assignable_def
        with_id_def)
  from a s g b show ?thesis by simp
qed

text \<open>
  C3. The claim: every collection operation treats an absent user as "no check
  requested" and proceeds. \<open>insertOne\<close>, \<open>insertMany\<close>, \<open>deleteOne\<close>, \<open>find\<close> and
  \<open>createIndex\<close> do; \<open>updateOne\<close> tests
  \<open>!user || !checkPermission(...)\<close> and answers an absent user with the
  permission-denied result, leaving the store as it is.
\<close>

theorem updateOne_absent_user_denied:
  "updateOne J st dbName collectionName now new_id filt update options JUndefined
     = (st, Inr permission_denied)"
  by (simp add: updateOne_def)

text \<open>
  The five other operations do proceed: called without a user, each of them does
  exactly what it does for a user whose check succeeds.
\<close>

lemma insertOne_absent_user:
  "absent_or_permitted user (fullName dbName collectionName) ''write'' = Inr True \<Longrightarrow>
     insertOne st dbName collectionName now new_id doc JUndefined
       = insertOne st dbName collectionName now new_id doc user"
  by (simp add: insertOne_def absent_or_permitted_def)

lemma insertMany_absent_user:
  "absent_or_permitted user (fullName dbName collectionName) ''write'' = Inr True \<Longrightarrow>
     insertMany st dbName collectionName now new_ids docs JUndefined
       = insertMany st dbName collectionName now new_ids docs user"
  by (simp add: insertMany_def absent_or_permitted_def)

lemma deleteOne_absent_user:
  "absent_or_permitted user (fullName dbName collectionName) ''write'' = Inr True \<Longrightarrow>
     deleteOne J st dbName collectionName now filt JUndefined
       = deleteOne J st dbName collectionName now filt user"
  by (simp add: deleteOne_def absent_or_permitted_def)

lemma find_absent_user:
  "absent_or_permitted user (fullName dbName collectionName) ''read'' = Inr True \<Longrightarrow>
     find J st dbName collectionName query JUndefined
       = find J st dbName collectionName query user"
  by (simp add: find_def absent_or_permitted_def)

lemma createIndex_absent_user:
  "absent_or_permitted user (fullName dbName collectionName) ''write'' = Inr True \<Longrightarrow>
     collection_createIndex st dbName collectionName field JUndefined
       = collection_createIndex st dbName collectionName field user"
  by (simp add: collection_createIndex_def absent_or_permitted_def)

section \<open>The index scenario\<close>

lemma alpha_beta_collection:
  "collections alpha_beta_store (fullName ''test'' ''one'') =
     Some [[(''name'', JStr ''Alpha''), (''_id'', JStr ''id1'')],
           [(''name'', JStr ''Beta''), (''_id'', JStr ''id2'')]]"
  by (simp add: alpha_beta_store_def insertOne_def admin_may db_collection_def JSM_def
      spread_def with_id_def)

lemma indexes_alpha_beta: "indexes alpha_beta_store = Map.empty"
  by (simp add: alpha_beta_store_def insertOne_def admin_may db_collection_def JSM_def
      touch_def mark_changed_def put_collection_def)

lemma indexed_store_eq:
  "indexed_store =
     put_index (fullName ''test'' ''one'') ''name'' [''Alpha'' \<mapsto> [0], ''Beta'' \<mapsto> [1]]
       (ensure_index_table (fullName ''test'' ''one'') alpha_beta_store)"
  by (simp add: indexed_store_def collection_createIndex_def admin_may createIndex_def
      alpha_beta_collection get_def object_prototype_names_def)

lemma indexed_store_index:
  "indexes indexed_store (fullName ''test'' ''one'') =
     Some [''name'' \<mapsto> [''Alpha'' \<mapsto> [0], ''Beta'' \<mapsto> [1]]]"
  by (simp add: indexed_store_eq put_index_def ensure_index_table_def indexes_alpha_beta)

text \<open>
  C9. After \<open>{name: "Alpha"}\<close> and \<open>{name: "Beta"}\<close> are inserted and an index is
  created on \<open>name\<close>, the index maps Alpha to position 0 and
  \<open>find({name: "Alpha"})\<close> returns exactly the Alpha document. Deleting Beta removes
  one document and leaves the index as it was, so it still maps Beta to position 1;
  \<open>find({name: "Beta"})\<close> then reads that position, past the end of the
  collection, and returns \<open>[undefined]\<close> without raising.
\<close>

theorem stale_index_scenario:
  "index_entry indexed_store (fullName ''test'' ''one'') ''name'' ''Alpha'' = Some [0]
   \<and> find J indexed_store ''test'' ''one'' (JObj [(''name'', JStr ''Alpha'')]) admin_user
       = Inr [JObj [(''name'', JStr ''Alpha''), (''_id'', JStr ''id1'')]]
   \<and> snd (deleteOne J indexed_store ''test'' ''one'' 3 (JObj [(''name'', JStr ''Beta'')]) admin_user)
       = Inr (JNum 1)
   \<and> collections (beta_deleted_store J) (fullName ''test'' ''one'')
       = Some [[(''name'', JStr ''Alpha''), (''_id'', JStr ''id1'')]]
   \<and> index_entry (beta_deleted_store J) (fullName ''test'' ''one'') ''name'' ''Beta'' = Some [1]
   \<and> find J (beta_deleted_store J) ''test'' ''one'' (JObj [(''name'', JStr ''Beta'')]) admin_user
       = Inr [JUndefined]"
proof -
  have coll: "collections indexed_store (fullName ''test'' ''one'') =
     Some [[(''name'', JStr ''Alpha''), (''_id'', JStr ''id1'')],
           [(''name'', JStr ''Beta''), (''_id'', JStr ''id2'')]]"
    by (simp add: indexed_store_eq alpha_beta_collection)
  have c1: "index_entry indexed_store (fullName ''test'' ''one'') ''name'' ''Alpha'' = Some [0]"
    by (simp add: index_entry_def indexed_store_index)
  have c2: "find J indexed_store ''test'' ''one'' (JObj [(''name'', JStr ''Alpha'')]) admin_user
       = Inr [JObj [(''name'', JStr ''Alpha''), (''_id'', JStr ''id1'')]]"
    by (simp add: find_def admin_may coll indexed_store_index element_at_def)
  have m: "matchQuery J d (JObj [(''name'', JStr ''Beta'')]) = Inr (get d ''name'' = JStr ''Beta'')" for d
    by (simp add: matchQuery_def)
  have del: "deleteOne J indexed_store ''test'' ''one'' 3 (JObj [(''name'', JStr ''Beta'')]) admin_user
      = (touch 3 (mark_changed (fullName ''test'' ''one'')
           (put_collection (fullName ''test'' ''one'')
              [[(''name'', JStr ''Alpha''), (''_id'', JStr ''id1'')]] indexed_store)), Inr (JNum 1))"
    by (simp add: deleteOne_def admin_may coll m get_def)
  have c3: "snd (deleteOne J indexed_store ''test'' ''one'' 3 (JObj [(''name'', JStr ''Beta'')]) admin_user)
       = Inr (JNum 1)"
    by (simp add: del)
  have c4: "collections (beta_deleted_store J) (fullName ''test'' ''one'')
       = Some [[(''name'', JStr ''Alpha''), (''_id'', JStr ''id1'')]]"
    by (simp add: beta_deleted_store_def del)
  have ix: "indexes (beta_deleted_store J) = indexes indexed_store"
    by (simp add: beta_deleted_store_def del touch_def mark_changed_def put_collection_def)
  have c5: "index_entry (beta_deleted_store J) (fullName ''test'' ''one'') ''name'' ''Beta'' = Some [1]"
    by (simp add: index_entry_def ix indexed_store_index)
  have c6: "find J (beta_deleted_store J) ''test'' ''one'' (JObj [(''name'', JStr ''Beta'')]) admin_user
       = Inr [JUndefined]"
    by (simp add: find_def admin_may c4 ix indexed_store_index element_at_def)
  from c1 c2 c3 c4 c5 c6 show ?thesis by blast
qed

section \<open>Properties of registerUser\<close>

lemma default_role_reads:
  "hasPermission (JObj (registered_user hash username password new_id)) resource ''read'' = Inr True"
  by (simp add: registered_user_def default_roles_def hasPermission_def get_def is_admin_role_def
      role_grants_def permissions_include_def)

lemma default_role_does_not_write:
  "hasPermission (JObj (registered_user hash username password new_id)) resource ''write'' = Inr False"
  by (simp add: registered_user_def default_roles_def hasPermission_def get_def is_admin_role_def
      role_grants_def permissions_include_def)

lemma db_collection_idem:
  "db_collection (db_collection st d c) d c = db_collection st d c"
  by (cases "collections st (fullName d c)") (simp_all add: db_collection_def set_add_def)

lemma collections_db_collection:
  "collections (db_collection st ''auth'' ''users'') ''auth.users'' = Some (users_of st)"
  by (simp add: db_collection_def users_of_def fullName_def split: option.splits)

text \<open>
  C10. For every username that is not yet registered and every password,
  \<open>registerUser\<close> without a roles argument, or with an empty roles list, stores and
  returns the user with the single grant \<open>{resource: "*", permissions: ["read"]}\<close>:
  the user may read every resource and may write none.
\<close>

theorem registerUser_default_role:
  assumes "roles = JUndefined \<or> roles = JArr []"
    and "find J (db_collection st ''auth'' ''users'') ''auth'' ''users''
           (JObj [(''username'', JStr username)]) JUndefined = Inr []"
  shows "snd (registerUser J hash st now new_id username password roles)
           = Inr (JObj (registered_user hash username password new_id))
       \<and> collections (fst (registerUser J hash st now new_id username password roles)) ''auth.users''
           = Some (users_of st @ [registered_user hash username password new_id])
       \<and> get (registered_user hash username password new_id) ''roles''
           = JArr [JObj [(''resource'', JStr ''*''), (''permissions'', JArr [JStr ''read''])]]
       \<and> (\<forall>resource. hasPermission (JObj (registered_user hash username password new_id))
             resource ''read'' = Inr True)
       \<and> (\<forall>resource. hasPermission (JObj (registered_user hash username password new_id))
             resource ''write'' = Inr False)"
proof -
  have nr: "no_roles roles" using assms(1) by (auto simp: no_roles_def)
  have run: "registerUser J hash st now new_id username password roles =
      (touch now (mark_changed ''auth.users''
          (put_collection ''auth.users''
             (users_of st @ [registered_user hash username password new_id])
             (db_collection st ''auth'' ''users''))),
       Inr (JObj (registered_user hash username password new_id)))"
    using assms(2) nr collections_db_collection[of st]
    by (simp add: registerUser_def db_collection_idem insertOne_def absent_or_permitted_def
        fullName_def spread_def with_id_def registered_user_def)
  have c3: "get (registered_user hash username password new_id) ''roles''
           = JArr [JObj [(''resource'', JStr ''*''), (''permissions'', JArr [JStr ''read''])]]"
    by (simp add: registered_user_def get_def default_roles_def)
  show ?thesis
    using c3 default_role_reads default_role_does_not_write by (simp add: run)
qed

theorem registerUser_default_role_witness:
  "(JUndefined = JUndefined \<or> JUndefined = JArr [])
   \<and> find example_semantics (db_collection (JSM ''memory'' 0 0) ''auth'' ''users'') ''auth'' ''users''
           (JObj [(''username'', JStr ''reader'')]) JUndefined = Inr []
   \<and> snd (registerUser example_semantics (\<lambda>p. ''#'' @ p) (JSM ''memory'' 0 0) 5 ''id7''
            ''reader'' ''pass123'' JUndefined)
       = Inr (JObj [(''username'', JStr ''reader''), (''password'', JStr ''#pass123''),
                    (''roles'', JArr [JObj [(''resource'', JStr ''*''),
                                            (''permissions'', JArr [JStr ''read''])]]),
                    (''_id'', JStr ''id7'')])
   \<and> hasPermission (JObj (registered_user (\<lambda>p. ''#'' @ p) ''reader'' ''pass123'' ''id7''))
        ''test.one'' ''read'' = Inr True
   \<and> hasPermission (JObj (registered_user (\<lambda>p. ''#'' @ p) ''reader'' ''pass123'' ''id7''))
        ''test.one'' ''write'' = Inr False"
proof -
  have h1: "JUndefined = JUndefined \<or> JUndefined = JArr []" by simp
  have h2: "find example_semantics (db_collection (JSM ''memory'' 0 0) ''auth'' ''users'') ''auth'' ''users''
           (JObj [(''username'', JStr ''reader'')]) JUndefined = Inr []"
    by (simp add: find_def absent_or_permitted_def db_collection_def JSM_def fullName_def)
  from registerUser_default_role [OF h1 h2, of "\<lambda>p. ''#'' @ p" 5 "''id7''" "''pass123''"] h1 h2
  show ?thesis by (simp add: registered_user_def default_roles_def)
qed

section \<open>Properties of the persistence scheduler\<close>

lemma dump_loop_append:
  "dump_loop st (xs @ ys) d =
     (case dump_loop st xs d of
        (d', Inl e) \<Rightarrow> (d', Inl e)
      | (d', Inr u) \<Rightarrow> dump_loop st ys d')"
proof (induction xs arbitrary: d)
  case Nil
  show ?case by simp
next
  case (Cons x xs)
  show ?case
    by (cases "persistCollection st d (fst (split_name x)) (snd (split_name x)) (collections st x)")
       (auto simp: Cons.IH split: sum.splits)
qed

lemma split_simple [simp]:
  "split_name ''b.y'' = (''b'', ''y'')" "split_name ''a.x'' = (''a'', ''x'')"
  "split_name ''c.z'' = (''c'', ''z'')"
  by (simp_all add: split_name_def)

lemma json_one_doc [simp]: "map json_document one_doc = one_doc"
  by (simp add: one_doc_def json_document_def)

lemma mode_three [simp]: "storageMode three_dirty_store = ''disk''"
  by (simp add: three_dirty_store_def JSM_def)

text \<open>
  C1, as amended. When the write of one dirty collection fails in a dump cycle, the
  cycle stops there. The collections before it in the dirty set have been written,
  the ones after it are not attempted, and the dirty set stays as it was: it still
  holds the failed collection, the ones not attempted and the ones already written.
  The timer catches the error, so the next cycle retries all of them.
\<close>

theorem dump_cycle_stops_at_failure:
  assumes "changedCollections st = written @ failed # pending"
    and "dump_loop st written d = (d1, Inr ())"
    and "persistCollection st d1 (fst (split_name failed)) (snd (split_name failed))
           (collections st failed) = (d2, Inl e)"
    and "now - lastActivity st > idleTimeout st"
  shows "dumpChangedCollections st d = (st, d2, Inl e) \<and> idle_tick now st d = (st, d2)"
proof -
  have "dump_loop st (written @ failed # pending) d = (d2, Inl e)"
    using assms(2,3) by (simp add: dump_loop_append)
  then have dc: "dumpChangedCollections st d = (st, d2, Inl e)"
    using assms(1) by (simp add: dumpChangedCollections_def)
  then show ?thesis using assms(1,4) by (simp add: idle_tick_def)
qed

theorem dump_cycle_stops_at_failure_witness:
  "changedCollections three_dirty_store = [''b.y''] @ ''a.x'' # [''c.z'']
   \<and> dump_loop three_dirty_store [''b.y''] blocked_disk
       = (StorageDir [(''a'', TopFile), (''b'', DbDir [(''y.json'', File (JsonDocs one_doc))])], Inr ())
   \<and> persistCollection three_dirty_store
       (StorageDir [(''a'', TopFile), (''b'', DbDir [(''y.json'', File (JsonDocs one_doc))])])
       (fst (split_name ''a.x'')) (snd (split_name ''a.x'')) (collections three_dirty_store ''a.x'')
       = (StorageDir [(''a'', TopFile), (''b'', DbDir [(''y.json'', File (JsonDocs one_doc))])], Inl IOError)
   \<and> 20000 - lastActivity three_dirty_store > idleTimeout three_dirty_store
   \<and> dumpChangedCollections three_dirty_store blocked_disk
       = (three_dirty_store,
          StorageDir [(''a'', TopFile), (''b'', DbDir [(''y.json'', File (JsonDocs one_doc))])],
          Inl IOError)"
proof -
  let ?d1 = "StorageDir [(''a'', TopFile), (''b'', DbDir [(''y.json'', File (JsonDocs one_doc))])]"
  have c: "collections three_dirty_store ''b.y'' = Some one_doc"
    "collections three_dirty_store ''a.x'' = Some one_doc"
    by (simp_all add: three_dirty_store_def)
  have h1: "changedCollections three_dirty_store = [''b.y''] @ ''a.x'' # [''c.z'']"
    by (simp add: three_dirty_store_def)
  have h2: "dump_loop three_dirty_store [''b.y''] blocked_disk = (?d1, Inr ())"
    by (simp add: c persistCollection_def mkdir_db_def blocked_disk_def JSON_stringify_def writeFile_def)
  have h3: "persistCollection three_dirty_store ?d1
       (fst (split_name ''a.x'')) (snd (split_name ''a.x'')) (collections three_dirty_store ''a.x'')
       = (?d1, Inl IOError)"
    by (simp add: c persistCollection_def mkdir_db_def)
  have h4: "20000 - lastActivity three_dirty_store > idleTimeout three_dirty_store"
    by (simp add: three_dirty_store_def JSM_def)
  from dump_cycle_stops_at_failure [OF h1 h2 h3 h4] h1 h2 h3 h4
  show ?thesis by simp
qed

text \<open>
  C1 as stated fails: with \<open>b.y\<close>, \<open>a.x\<close>, \<open>c.z\<close> dirty and \<open>a\<close> a regular
  file in the storage directory, the write of \<open>a.x\<close> fails. After the cycle
  \<open>b.y\<close> is written and still dirty, and \<open>c.z\<close> is not written although its own
  write succeeds.
\<close>

theorem dump_cycle_counterexample:
  "changedCollections three_dirty_store = [''b.y'', ''a.x'', ''c.z'']
   \<and> idle_tick 20000 three_dirty_store blocked_disk
       = (three_dirty_store,
          StorageDir [(''a'', TopFile), (''b'', DbDir [(''y.json'', File (JsonDocs one_doc))])])
   \<and> persistCollection three_dirty_store blocked_disk ''c'' ''z'' (collections three_dirty_store ''c.z'')
       = (StorageDir [(''a'', TopFile), (''c'', DbDir [(''z.json'', File (JsonDocs one_doc))])], Inr ())"
proof -
  have c: "collections three_dirty_store ''b.y'' = Some one_doc"
    "collections three_dirty_store ''a.x'' = Some one_doc"
    "collections three_dirty_store ''c.z'' = Some one_doc"
    by (simp_all add: three_dirty_store_def)
  have ch: "changedCollections three_dirty_store = [''b.y'', ''a.x'', ''c.z'']"
    by (simp add: three_dirty_store_def)
  have t: "lastActivity three_dirty_store = 0" "idleTimeout three_dirty_store = 10000"
    by (simp_all add: three_dirty_store_def JSM_def)
  have p1: "persistCollection three_dirty_store blocked_disk ''b'' ''y'' (Some one_doc)
     = (StorageDir [(''a'', TopFile), (''b'', DbDir [(''y.json'', File (JsonDocs one_doc))])], Inr ())"
    by (simp add: persistCollection_def mkdir_db_def blocked_disk_def JSON_stringify_def writeFile_def)
  have p2: "persistCollection three_dirty_store
       (StorageDir [(''a'', TopFile), (''b'', DbDir [(''y.json'', File (JsonDocs one_doc))])])
       ''a'' ''x'' (Some one_doc)
     = (StorageDir [(''a'', TopFile), (''b'', DbDir [(''y.json'', File (JsonDocs one_doc))])], Inl IOError)"
    by (simp add: persistCollection_def mkdir_db_def)
  have p3: "persistCollection three_dirty_store blocked_disk ''c'' ''z'' (Some one_doc)
     = (StorageDir [(''a'', TopFile), (''c'', DbDir [(''z.json'', File (JsonDocs one_doc))])], Inr ())"
    by (simp add: persistCollection_def mkdir_db_def blocked_disk_def JSON_stringify_def writeFile_def)
  have "idle_tick 20000 three_dirty_store blocked_disk
       = (three_dirty_store,
          StorageDir [(''a'', TopFile), (''b'', DbDir [(''y.json'', File (JsonDocs one_doc))])])"
    by (simp add: idle_tick_def dumpChangedCollections_def ch t c p1 p2)
  with ch p3 c show ?thesis by simp
qed

text \<open>
  C2. The claim: in memory mode \<open>initialize()\<close> reads no collection file. The code
  calls \<open>_loadPersistedData()\<close> whatever the storage mode is: a store in memory mode
  loads the collection file that stands in the storage directory. (Writing is guarded:
  outside disk mode \<open>_persistCollection\<close> leaves the directory as it is.)
\<close>

theorem initialize_memory_mode_loads:
  "storageMode (JSM ''memory'' 0 0) = ''memory''
   \<and> collections (fst (initialize hash (JSM ''memory'' 0 0) stocked_disk new_id)) ''shop.items''
       = Some one_doc
   \<and> snd (snd (initialize hash (JSM ''memory'' 0 0) stocked_disk new_id)) = Inr ()"
  by (simp add: initialize_def ensureStorageDirectory_def stocked_disk_def loadPersistedData_def
      endsWith_def basename_def fullName_def JSM_def ensureAdminUser_def put_collection_def
      mark_changed_def)

lemma persistCollection_memory:
  "storageMode st \<noteq> ''disk'' \<Longrightarrow> persistCollection st d dbName collectionName data = (d, Inr ())"
  by (simp add: persistCollection_def)

section \<open>A dump followed by a load\<close>

lemma json_safe_value: "json_safe v \<Longrightarrow> json_value v = v"
proof (induction v)
  case (JArr xs)
  have "map (\<lambda>x. if x = JUndefined then JNull else json_value x) xs = map (\<lambda>x. x) xs"
  proof (rule map_cong[OF refl])
    fix x assume x: "x \<in> set xs"
    with JArr.prems have s: "json_safe x" by (simp add: list_all_iff)
    then have "x \<noteq> JUndefined" by auto
    with JArr.IH[OF x s] show "(if x = JUndefined then JNull else json_value x) = x" by simp
  qed
  then show ?case by simp
next
  case (JObj ps)
  have f: "filter (\<lambda>p. snd p \<noteq> JUndefined) ps = ps"
  proof (rule filter_True)
    show "\<forall>p\<in>set ps. snd p \<noteq> JUndefined"
      using JObj.prems by (auto simp: list_all_iff)
  qed
  have "map (\<lambda>p. (fst p, json_value (snd p))) ps = map (\<lambda>p. p) ps"
  proof (rule map_cong[OF refl])
    fix p assume p: "p \<in> set ps"
    with JObj.prems have s: "json_safe (snd p)" by (simp add: list_all_iff)
    have "snd p \<in> Basic_BNFs.snds p" by (cases p) simp
    from JObj.IH[OF p this s] show "(fst p, json_value (snd p)) = p" by (cases p) simp
  qed
  with f show ?case by simp
qed simp_all

lemma json_safe_document_id: "json_safe_document doc \<Longrightarrow> json_document doc = doc"
proof -
  assume a: "json_safe_document doc"
  then have "json_safe (JObj doc)" by (simp add: json_safe_document_def)
  then have "json_value (JObj doc) = JObj doc" by (rule json_safe_value)
  then show ?thesis by (simp add: json_document_def)
qed

lemma split_on_no_sep: "c \<notin> set s \<Longrightarrow> split_on c s = [s]"
  by (induction s) auto

lemma split_on_first: "c \<notin> set s \<Longrightarrow> split_on c (s @ c # t) = s # split_on c t"
  by (induction s) auto

lemma split_name_fullName:
  "CHR ''.'' \<notin> set dbName \<Longrightarrow> CHR ''.'' \<notin> set collectionName
     \<Longrightarrow> split_name (fullName dbName collectionName) = (dbName, collectionName)"
  by (simp add: split_name_def fullName_def split_on_first split_on_no_sep)

lemma fullName_inj:
  assumes "fullName db' c' = fullName db c" "CHR ''.'' \<notin> set db" "CHR ''.'' \<notin> set c"
  shows "db' = db \<and> c' = c"
proof -
  from assms(1) have eq: "db' @ CHR ''.'' # c' = db @ CHR ''.'' # c" by (simp add: fullName_def)
  then obtain us where "(db' = db @ us \<and> us @ CHR ''.'' # c' = CHR ''.'' # c) \<or>
                        (db' @ us = db \<and> CHR ''.'' # c' = us @ CHR ''.'' # c)"
    by (auto simp: append_eq_append_conv2)
  then show ?thesis
  proof
    assume a: "db' = db @ us \<and> us @ CHR ''.'' # c' = CHR ''.'' # c"
    show ?thesis
    proof (cases us)
      case Nil
      with a show ?thesis by simp
    next
      case (Cons u us')
      with a have "c = us' @ CHR ''.'' # c'" by simp
      with assms(3) show ?thesis by simp
    qed
  next
    assume a: "db' @ us = db \<and> CHR ''.'' # c' = us @ CHR ''.'' # c"
    show ?thesis
    proof (cases us)
      case Nil
      with a show ?thesis by simp
    next
      case (Cons u us')
      with a have "u = CHR ''.''" by simp
      with a Cons assms(2) show ?thesis by auto
    qed
  qed
qed

lemma distinct_names_map_of:
  "list_all (\<lambda>p. distinct_names (snd p)) files \<Longrightarrow> map_of files n = Some (DbDir fs)
     \<Longrightarrow> distinct (map fst fs)"
proof (induction files)
  case Nil
  then show ?case by simp
next
  case (Cons p files)
  then show ?case by (cases p) (auto split: if_splits)
qed

lemma list_all_update:
  "list_all (\<lambda>p. P (snd p)) al \<Longrightarrow> P v \<Longrightarrow> list_all (\<lambda>p. P (snd p)) (AList.update k v al)"
  by (induction al) auto

lemma mkdir_db_wf: "wf_disk d \<Longrightarrow> mkdir_db d dbName = Inr d1 \<Longrightarrow> wf_disk d1"
  by (auto simp: mkdir_db_def wf_disk_def map_of_eq_None_iff
      split: disk.splits option.splits top_entry.splits)

lemma mkdir_db_file_at:
  "mkdir_db d dbName = Inr d1 \<Longrightarrow> file_at d1 db f = file_at d db f"
  by (auto simp: mkdir_db_def file_at_def map_of_append map_add_def
      split: disk.splits option.splits top_entry.splits if_splits)

lemma writeFile_wf: "wf_disk d \<Longrightarrow> writeFile d dbName fileName text = Inr d2 \<Longrightarrow> wf_disk d2"
proof -
  assume wf: "wf_disk d" and w: "writeFile d dbName fileName text = Inr d2"
  from w obtain files fs where d: "d = StorageDir files" and m: "map_of files dbName = Some (DbDir fs)"
    and d2: "d2 = StorageDir (AList.update dbName (DbDir (AList.update fileName (File text) fs)) files)"
    by (auto simp: writeFile_def split: disk.splits option.splits top_entry.splits entry.splits)
  from wf d have dist: "distinct (map fst files)" and all: "list_all (\<lambda>p. distinct_names (snd p)) files"
    by (simp_all add: wf_disk_def)
  from distinct_names_map_of[OF all m] have "distinct (map fst fs)" .
  then have "distinct_names (DbDir (AList.update fileName (File text) fs))"
    by (simp add: distinct_update)
  with all have "list_all (\<lambda>p. distinct_names (snd p))
      (AList.update dbName (DbDir (AList.update fileName (File text) fs)) files)"
    by (rule list_all_update)
  with dist d2 show ?thesis by (simp add: wf_disk_def distinct_update)
qed

lemma writeFile_file_at:
  "writeFile d dbName fileName text = Inr d2 \<Longrightarrow>
     file_at d2 db f = (if db = dbName \<and> f = fileName then Some (File text) else file_at d db f)"
  by (auto simp: writeFile_def file_at_def update_conv'
      split: disk.splits option.splits top_entry.splits entry.splits if_splits)

lemma persistCollection_written:
  assumes "storageMode st = ''disk''"
    and "persistCollection st d dbName collectionName (Some docs) = (d', Inr ())"
  shows "file_at d' db f =
           (if db = dbName \<and> f = collectionName @ ''.json''
            then Some (File (JsonDocs (map json_document docs))) else file_at d db f)"
    and "wf_disk d \<Longrightarrow> wf_disk d'"
proof -
  from assms obtain d1 where m: "mkdir_db d dbName = Inr d1"
    and w: "writeFile d1 dbName (collectionName @ ''.json'') (JsonDocs (map json_document docs)) = Inr d'"
    by (auto simp: persistCollection_def JSON_stringify_def split: sum.splits)
  show "file_at d' db f =
           (if db = dbName \<and> f = collectionName @ ''.json''
            then Some (File (JsonDocs (map json_document docs))) else file_at d db f)"
    using writeFile_file_at[OF w] mkdir_db_file_at[OF m] by simp
  show "wf_disk d \<Longrightarrow> wf_disk d'"
    using mkdir_db_wf[OF _ m] writeFile_wf[OF _ w] by blast
qed

lemma persistCollection_needs_data:
  "storageMode st = ''disk'' \<Longrightarrow> persistCollection st d dbName collectionName None \<noteq> (d', Inr ())"
  by (auto simp: persistCollection_def JSON_stringify_def split: sum.splits)

lemma simple_full_name_fullName:
  "simple_name db \<Longrightarrow> simple_name c \<Longrightarrow> simple_full_name (fullName db c)"
  by (simp add: simple_full_name_def simple_name_def split_name_fullName)

lemma dump_loop_written:
  assumes "storageMode st = ''disk''"
    and "dump_loop st ks d = (d', Inr ())"
    and "list_all simple_full_name ks"
    and "wf_disk d"
  shows "wf_disk d'
       \<and> (\<forall>db c. simple_name db \<and> simple_name c \<longrightarrow>
            file_at d' db (c @ ''.json'') =
              (if fullName db c \<in> set ks
               then map_option (\<lambda>docs. File (JsonDocs (map json_document docs)))
                      (collections st (fullName db c))
               else file_at d db (c @ ''.json'')))
       \<and> (\<forall>k \<in> set ks. collections st k \<noteq> None)"
  using assms(2,3,4)
proof (induction ks arbitrary: d)
  case Nil
  then show ?case by simp
next
  case (Cons k ks)
  let ?db = "fst (split_name k)" and ?c = "snd (split_name k)"
  from Cons.prems(2) have sfk: "simple_full_name k" and rest: "list_all simple_full_name ks"
    by simp_all
  from sfk have sk: "simple_name ?db" "simple_name ?c" "k = fullName ?db ?c"
    by (simp_all add: simple_full_name_def)
  from Cons.prems(1) obtain d1 where
    p: "persistCollection st d ?db ?c (collections st k) = (d1, Inr ())"
    and l: "dump_loop st ks d1 = (d', Inr ())"
    by (auto split: prod.splits sum.splits)
  from p persistCollection_needs_data[OF assms(1)] obtain docs where
    docs: "collections st k = Some docs" by (cases "collections st k") auto
  note w = persistCollection_written[OF assms(1) p[unfolded docs]]
  from w(2) Cons.prems(3) have wf1: "wf_disk d1" by simp
  from Cons.IH[OF l rest wf1] have
    IH1: "wf_disk d'"
    and IH2: "\<And>db c. simple_name db \<Longrightarrow> simple_name c \<Longrightarrow>
            file_at d' db (c @ ''.json'') =
              (if fullName db c \<in> set ks
               then map_option (\<lambda>docs. File (JsonDocs (map json_document docs)))
                      (collections st (fullName db c))
               else file_at d1 db (c @ ''.json''))"
    and IH3: "\<forall>k \<in> set ks. collections st k \<noteq> None"
    by blast+
  have files: "file_at d' db (c @ ''.json'') =
              (if fullName db c \<in> set (k # ks)
               then map_option (\<lambda>docs. File (JsonDocs (map json_document docs)))
                      (collections st (fullName db c))
               else file_at d db (c @ ''.json''))"
    if s: "simple_name db" "simple_name c" for db c
  proof (cases "fullName db c \<in> set ks")
    case True
    with IH2[OF s] show ?thesis by simp
  next
    case False
    show ?thesis
    proof (cases "fullName db c = k")
      case True
      with sk(3) have "fullName ?db ?c = fullName db c" by simp
      from fullName_inj[OF this] s have "?db = db" "?c = c" by (simp_all add: simple_name_def)
      with IH2[OF s] False True w(1)[of db "c @ ''.json''"] docs show ?thesis by simp
    next
      case neq: False
      have "\<not> (db = ?db \<and> c @ ''.json'' = ?c @ ''.json'')"
        using neq sk(3) by auto
      with IH2[OF s] False neq w(1)[of db "c @ ''.json''"] show ?thesis by auto
    qed
  qed
  from IH1 files IH3 docs show ?case by auto
qed

lemma endsWith_append [simp]: "endsWith (c @ ext) ext"
  by (simp add: endsWith_def)

lemma basename_append [simp]: "basename (c @ ext) ext = c"
  by (simp add: basename_def)

lemma endsWith_basename: "endsWith f ext \<Longrightarrow> basename f ext @ ext = f"
  by (simp add: endsWith_def basename_def) (metis append_take_drop_id)

lemma load_files_other_database:
  assumes "load_files db' fs st = (st', r)"
    and "db' \<noteq> db" "CHR ''.'' \<notin> set db" "CHR ''.'' \<notin> set c"
  shows "collections st' (fullName db c) = collections st (fullName db c)"
  using assms(1)
proof (induction fs arbitrary: st)
  case Nil
  then show ?case by simp
next
  case (Cons p fs)
  obtain f e where p: "p = (f, e)" by (cases p)
  have ne: "fullName db' b \<noteq> fullName db c" for b
    using fullName_inj[of db' b db c] assms(2,3,4) by blast
  have keep: "collections (put_collection (fullName db' b) docs s) (fullName db c)
                = collections s (fullName db c)" for b docs s
    using ne[of b] by simp
  show ?case
  proof (cases "endsWith f ''.json''")
    case False
    with Cons.prems Cons.IH p show ?thesis by simp
  next
    case True
    show ?thesis
    proof (cases e)
      case SubDir
      with Cons.prems p True show ?thesis by simp
    next
      case (File t)
      show ?thesis
      proof (cases t)
        case NotJson
        with Cons.prems p True File show ?thesis by simp
      next
        case (JsonDocs docs)
        with Cons.prems p True File
        have "load_files db' fs (put_collection (fullName db' (basename f ''.json'')) docs st)
                = (st', r)" by simp
        from Cons.IH[OF this] keep show ?thesis by simp
      qed
    qed
  qed
qed

lemma load_files_same_database:
  assumes "load_files db fs st = (st', Inr ())"
    and "distinct (map fst fs)" "CHR ''.'' \<notin> set db" "CHR ''.'' \<notin> set c"
  shows "collections st' (fullName db c) =
           (case map_of fs (c @ ''.json'') of
              Some (File (JsonDocs docs)) \<Rightarrow> Some docs
            | _ \<Rightarrow> collections st (fullName db c))"
  using assms(1,2)
proof (induction fs arbitrary: st)
  case Nil
  then show ?case by simp
next
  case (Cons p fs)
  obtain f e where p: "p = (f, e)" by (cases p)
  from Cons.prems(2) p have nf: "map_of fs f = None" and dist: "distinct (map fst fs)"
    by (auto simp: map_of_eq_None_iff)
  show ?case
  proof (cases "endsWith f ''.json''")
    case False
    then have "f \<noteq> c @ ''.json''" by auto
    with Cons.prems(1) Cons.IH[OF _ dist] p False show ?thesis by (simp split: option.splits top_entry.splits entry.splits content.splits)
  next
    case True
    with Cons.prems(1) p obtain docs where e: "e = File (JsonDocs docs)"
      and l: "load_files db fs (put_collection (fullName db (basename f ''.json'')) docs st)
                = (st', Inr ())"
      by (auto split: entry.splits content.splits)
    note IH = Cons.IH[OF l dist]
    show ?thesis
    proof (cases "f = c @ ''.json''")
      case same: True
      with nf have "map_of fs (c @ ''.json'') = None" by simp
      with IH same e p show ?thesis by (simp split: option.splits top_entry.splits entry.splits content.splits)
    next
      case diff: False
      have "basename f ''.json'' \<noteq> c"
        using endsWith_basename[OF True] diff by auto
      then have "fullName db (basename f ''.json'') \<noteq> fullName db c"
        by (simp add: fullName_def)
      then have "collections (put_collection (fullName db (basename f ''.json'')) docs st)
                   (fullName db c) = collections st (fullName db c)" by simp
      with IH diff p show ?thesis by (simp split: option.splits top_entry.splits entry.splits content.splits)
    qed
  qed
qed

lemma load_databases_restores:
  assumes "load_databases files st = (st', Inr ())"
    and "distinct (map fst files)" "list_all (\<lambda>p. distinct_names (snd p)) files"
    and "CHR ''.'' \<notin> set db" "CHR ''.'' \<notin> set c"
  shows "collections st' (fullName db c) =
           (case map_of files db of
              Some (DbDir fs) \<Rightarrow>
                (case map_of fs (c @ ''.json'') of
                   Some (File (JsonDocs docs)) \<Rightarrow> Some docs
                 | _ \<Rightarrow> collections st (fullName db c))
            | _ \<Rightarrow> collections st (fullName db c))"
  using assms(1,2,3)
proof (induction files arbitrary: st)
  case Nil
  then show ?case by simp
next
  case (Cons p files)
  obtain n e where p: "p = (n, e)" by (cases p)
  from Cons.prems(2) p have nn: "map_of files n = None" and dist: "distinct (map fst files)"
    by (auto simp: map_of_eq_None_iff)
  from Cons.prems(3) have all: "list_all (\<lambda>p. distinct_names (snd p)) files" by simp
  show ?case
  proof (cases e)
    case TopFile
    with Cons.prems(1) p have l: "load_databases files st = (st', Inr ())" by simp
    have "n \<noteq> db \<or> map_of files db = None" using nn by auto
    with Cons.IH[OF l dist all] p TopFile show ?thesis by (auto split: option.splits top_entry.splits entry.splits content.splits)
  next
    case (DbDir fs)
    with Cons.prems(1) p obtain st1 where
      lf: "load_files n fs (st\<lparr> databases := set_add n (databases st) \<rparr>) = (st1, Inr ())"
      and l: "load_databases files st1 = (st', Inr ())"
      by (auto split: prod.splits sum.splits)
    from Cons.prems(3) p DbDir have dfs: "distinct (map fst fs)" by simp
    note IH = Cons.IH[OF l dist all]
    show ?thesis
    proof (cases "n = db")
      case True
      with nn have none: "map_of files db = None" by simp
      from load_files_same_database[OF lf[unfolded True] dfs assms(4,5)]
      have "collections st1 (fullName db c) =
           (case map_of fs (c @ ''.json'') of
              Some (File (JsonDocs docs)) \<Rightarrow> Some docs
            | _ \<Rightarrow> collections st (fullName db c))"
        by (simp split: option.splits entry.splits content.splits)
      with IH none p DbDir True show ?thesis by (simp split: option.splits top_entry.splits entry.splits content.splits)
    next
      case False
      from load_files_other_database[OF lf False assms(4,5)]
      have "collections st1 (fullName db c) = collections st (fullName db c)" by simp
      with IH p False show ?thesis by (simp split: option.splits top_entry.splits entry.splits content.splits)
    qed
  qed
qed

lemma split_shop_items [simp]: "split_name ''shop.items'' = (''shop'', ''items'')"
  by (simp add: split_name_def)

text \<open>
  A dump followed by a load restores the collections with plain names. In disk mode,
  when every dirty collection is named \<open>database.collection\<close> by two simple names, a
  dump that meets no error followed by a load into a fresh store that meets no error
  reproduces each dirty collection whose documents survive the JSON text: the fresh
  store has the same documents, with the same fields and identifiers, under the same
  name.
\<close>

lemma dump_then_load_restores:
  assumes "storageMode st = ''disk''"
    and "list_all simple_full_name (changedCollections st)"
    and "wf_disk d"
    and "dumpChangedCollections st d = (st', d', Inr ())"
    and "loadPersistedData fresh d' = (loaded, Inr ())"
    and "simple_name dbName" "simple_name collectionName"
    and "fullName dbName collectionName \<in> set (changedCollections st)"
    and "collections st (fullName dbName collectionName) = Some docs"
    and "list_all json_safe_document docs"
  shows "collections loaded (fullName dbName collectionName) = Some docs"
proof -
  from assms(4) have dl: "dump_loop st (changedCollections st) d = (d', Inr ())"
    by (auto simp: dumpChangedCollections_def split: prod.splits sum.splits)
  from dump_loop_written[OF assms(1) dl assms(2,3)] assms(6,7,8,9)
  have wf: "wf_disk d'"
    and written: "file_at d' dbName (collectionName @ ''.json'')
                 = Some (File (JsonDocs (map json_document docs)))"
    by auto
  have same: "map json_document docs = docs"
    using assms(10) by (induction docs) (simp_all add: json_safe_document_id)
  from assms(5) obtain files where d': "d' = StorageDir files"
    and ld: "load_databases files fresh = (loaded, Inr ())"
    by (auto simp: loadPersistedData_def split: disk.splits)
  from wf d' have dist: "distinct (map fst files)"
    and all: "list_all (\<lambda>p. distinct_names (snd p)) files"
    by (simp_all add: wf_disk_def)
  from assms(6,7) have nd: "CHR ''.'' \<notin> set dbName" "CHR ''.'' \<notin> set collectionName"
    by (simp_all add: simple_name_def)
  from written d' obtain fs where m: "map_of files dbName = Some (DbDir fs)"
    and mf: "map_of fs (collectionName @ ''.json'') = Some (File (JsonDocs (map json_document docs)))"
    by (auto simp: file_at_def split: option.splits top_entry.splits)
  from load_databases_restores[OF ld dist all nd] m mf same show ?thesis by simp
qed

lemma dump_then_load_restores_example:
  "storageMode simple_store = ''disk''
   \<and> list_all simple_full_name (changedCollections simple_store)
   \<and> wf_disk (StorageDir [])
   \<and> dumpChangedCollections simple_store (StorageDir [])
       = (simple_store \<lparr> changedCollections := [] \<rparr>,
          StorageDir [(''shop'', DbDir [(''items.json'', File (JsonDocs one_doc))])], Inr ())
   \<and> loadPersistedData (JSM ''disk'' 0 0)
         (StorageDir [(''shop'', DbDir [(''items.json'', File (JsonDocs one_doc))])])
       = (put_collection ''shop.items'' one_doc ((JSM ''disk'' 0 0) \<lparr> databases := [''shop''] \<rparr>),
          Inr ())
   \<and> simple_name ''shop'' \<and> simple_name ''items''
   \<and> fullName ''shop'' ''items'' \<in> set (changedCollections simple_store)
   \<and> collections simple_store (fullName ''shop'' ''items'') = Some one_doc
   \<and> list_all json_safe_document one_doc
   \<and> collections
        (put_collection ''shop.items'' one_doc ((JSM ''disk'' 0 0) \<lparr> databases := [''shop''] \<rparr>))
        (fullName ''shop'' ''items'') = Some one_doc"
proof -
  let ?d' = "StorageDir [(''shop'', DbDir [(''items.json'', File (JsonDocs one_doc))])]"
  let ?loaded = "put_collection ''shop.items'' one_doc ((JSM ''disk'' 0 0) \<lparr> databases := [''shop''] \<rparr>)"
  have h1: "storageMode simple_store = ''disk''" by (simp add: simple_store_def JSM_def)
  have ch: "changedCollections simple_store = [''shop.items'']" by (simp add: simple_store_def)
  have h6: "simple_name ''shop''" and h7: "simple_name ''items''" by (simp_all add: simple_name_def)
  have h2: "list_all simple_full_name (changedCollections simple_store)"
    by (simp add: ch simple_full_name_def h6 h7 fullName_def)
  have h3: "wf_disk (StorageDir [])" by (simp add: wf_disk_def)
  have c: "collections simple_store ''shop.items'' = Some one_doc" by (simp add: simple_store_def)
  have h4: "dumpChangedCollections simple_store (StorageDir [])
       = (simple_store \<lparr> changedCollections := [] \<rparr>, ?d', Inr ())"
    by (simp add: dumpChangedCollections_def ch c h1 persistCollection_def mkdir_db_def
        JSON_stringify_def writeFile_def)
  have h5: "loadPersistedData (JSM ''disk'' 0 0) ?d' = (?loaded, Inr ())"
    by (simp add: loadPersistedData_def endsWith_def basename_def fullName_def JSM_def set_add_def)
  have h8: "fullName ''shop'' ''items'' \<in> set (changedCollections simple_store)"
    by (simp add: ch fullName_def)
  have h9: "collections simple_store (fullName ''shop'' ''items'') = Some one_doc"
    by (simp add: c fullName_def)
  have h10: "list_all json_safe_document one_doc"
    by (simp add: one_doc_def json_safe_document_def)
  from dump_then_load_restores [OF h1 h2 h3 h4 h5 h6 h7 h8 h9 h10]
  have "collections ?loaded (fullName ''shop'' ''items'') = Some one_doc" .
  with h1 h2 h3 h4 h5 h6 h7 h8 h9 h10 show ?thesis by blast
qed

lemma dotted_store_eq:
  "dotted_store =
     (JSM ''disk'' 0 0)
       \<lparr> databases := [''shop''],
         collections := [''shop.items.v2'' \<mapsto> one_doc],
         changedCollections := [''shop.items.v2''],
         lastActivity := 1 \<rparr>"
  by (simp add: dotted_store_def insertOne_def absent_or_permitted_def db_collection_def
      fullName_def JSM_def set_add_def put_collection_def mark_changed_def touch_def
      spread_def with_id_def one_doc_def)

text \<open>
  C8. The claim: for every in-memory collection, a dump followed by a load into a
  fresh store reproduces its documents. The dump splits \<open>database.collection\<close> at
  every dot and keeps the first two parts: the collection \<open>items.v2\<close> of the database
  \<open>shop\<close>, holding one document, is written to \<open>shop/items.json\<close>. The fresh store
  loads that file as \<open>shop.items\<close> and has no collection \<open>shop.items.v2\<close>. (The load
  takes the collection name from the file name and keeps its dots.)
\<close>

theorem dotted_collection_not_restored:
  "collections dotted_store ''shop.items.v2'' = Some one_doc
   \<and> dumpChangedCollections dotted_store (StorageDir [])
       = (dotted_store \<lparr> changedCollections := [] \<rparr>,
          StorageDir [(''shop'', DbDir [(''items.json'', File (JsonDocs one_doc))])], Inr ())
   \<and> snd (loadPersistedData (JSM ''disk'' 0 0)
            (StorageDir [(''shop'', DbDir [(''items.json'', File (JsonDocs one_doc))])])) = Inr ()
   \<and> collections (fst (loadPersistedData (JSM ''disk'' 0 0)
            (StorageDir [(''shop'', DbDir [(''items.json'', File (JsonDocs one_doc))])])))
        ''shop.items.v2'' = None
   \<and> collections (fst (loadPersistedData (JSM ''disk'' 0 0)
            (StorageDir [(''shop'', DbDir [(''items.json'', File (JsonDocs one_doc))])])))
        ''shop.items'' = Some one_doc"
proof -
  have sp: "split_name ''shop.items.v2'' = (''shop'', ''items'')"
    by (simp add: split_name_def)
  have c1: "collections dotted_store ''shop.items.v2'' = Some one_doc"
    by (simp add: dotted_store_eq)
  have c2: "dumpChangedCollections dotted_store (StorageDir [])
       = (dotted_store \<lparr> changedCollections := [] \<rparr>,
          StorageDir [(''shop'', DbDir [(''items.json'', File (JsonDocs one_doc))])], Inr ())"
    by (simp add: dumpChangedCollections_def sp c1 persistCollection_def mkdir_db_def
        JSON_stringify_def writeFile_def dotted_store_eq JSM_def)
  have ld: "loadPersistedData (JSM ''disk'' 0 0)
            (StorageDir [(''shop'', DbDir [(''items.json'', File (JsonDocs one_doc))])])
       = (put_collection ''shop.items'' one_doc
            ((JSM ''disk'' 0 0) \<lparr> databases := [''shop''] \<rparr>), Inr ())"
    by (simp add: loadPersistedData_def endsWith_def basename_def fullName_def JSM_def set_add_def)
  have e: "collections (JSM ''disk'' 0 0) k = None" for k
    by (simp add: JSM_def)
  from c1 c2 show ?thesis by (simp add: ld e)
qed

lemma two_items_store_eq:
  "two_items_store =
     (JSM ''disk'' 0 0)
       \<lparr> databases := [''shop''],
         collections := [''shop.items'' \<mapsto> one_doc,
                         ''shop.items.v2'' \<mapsto> [[(''name'', JStr ''ink''), (''_id'', JStr ''id2'')]]],
         changedCollections := [''shop.items'', ''shop.items.v2''],
         lastActivity := 2 \<rparr>"
  by (simp add: two_items_store_def insertOne_def absent_or_permitted_def db_collection_def
      fullName_def JSM_def set_add_def put_collection_def mark_changed_def touch_def
      spread_def with_id_def one_doc_def)

text \<open>
  For the same reason the collections \<open>items\<close> and \<open>items.v2\<close> of one database are
  written to the same file, and the second write replaces the first: after the dump
  \<open>shop/items.json\<close> holds the document of \<open>items.v2\<close>.
\<close>

lemma dotted_collection_overwrites:
  "collections two_items_store ''shop.items'' = Some one_doc
   \<and> collections two_items_store ''shop.items.v2''
       = Some [[(''name'', JStr ''ink''), (''_id'', JStr ''id2'')]]
   \<and> dumpChangedCollections two_items_store (StorageDir [])
       = (two_items_store \<lparr> changedCollections := [] \<rparr>,
          StorageDir [(''shop'', DbDir [(''items.json'',
             File (JsonDocs [[(''name'', JStr ''ink''), (''_id'', JStr ''id2'')]]))])], Inr ())"
proof -
  have sp: "split_name ''shop.items.v2'' = (''shop'', ''items'')"
    "split_name ''shop.items'' = (''shop'', ''items'')"
    by (simp_all add: split_name_def)
  have c1: "collections two_items_store ''shop.items'' = Some one_doc"
    by (simp add: two_items_store_eq)
  have c2: "collections two_items_store ''shop.items.v2''
       = Some [[(''name'', JStr ''ink''), (''_id'', JStr ''id2'')]]"
    by (simp add: two_items_store_eq)
  have m: "storageMode two_items_store = ''disk''"
    "changedCollections two_items_store = [''shop.items'', ''shop.items.v2'']"
    by (simp_all add: two_items_store_eq JSM_def)
  have c3: "dumpChangedCollections two_items_store (StorageDir [])
       = (two_items_store \<lparr> changedCollections := [] \<rparr>,
          StorageDir [(''shop'', DbDir [(''items.json'',
             File (JsonDocs [[(''name'', JStr ''ink''), (''_id'', JStr ''id2'')]]))])], Inr ())"
    by (simp add: dumpChangedCollections_def sp c1 c2 m persistCollection_def mkdir_db_def
        JSON_stringify_def writeFile_def json_document_def one_doc_def)
  from c1 c2 c3 show ?thesis by blast
qed

end
